theory Spec2Isabelle
  imports Complex_Main "HOL-Library.AList" "HOL-Library.Sublist"
begin

section \<open>Python values\<close>

text \<open>
  The detector is Python. Its floats are modelled as real numbers together with the three
  non-finite values a Python float can hold; arithmetic on finite values is exact, so
  rounding is abstracted away. Its integers are \<open>int\<close> or \<open>nat\<close>, its strings
  are \<open>string\<close> with one \<open>char\<close> per code point (code points below 256), and an
  insertion-ordered \<open>dict\<close> is an association list maintained with \<open>AList.update\<close>.
  Every exception the source can raise is a value of type \<open>error\<close>.
\<close>

datatype pyfloat = Finite real | PosInf | NegInf | NaN

datatype error =
  ValueError | KeyError | IndexError | TypeError | AttributeError | NameError | RequestError

datatype dns_error = NXDOMAIN | NoAnswer | NoNameservers | LifetimeTimeout

fun is_finite :: "pyfloat \<Rightarrow> bool" where
  "is_finite (Finite r) = True"
| "is_finite PosInf = False"
| "is_finite NegInf = False"
| "is_finite NaN = False"

text \<open>\<open>a > b\<close> on floats: every comparison with NaN is false.\<close>

fun pf_gt :: "pyfloat \<Rightarrow> pyfloat \<Rightarrow> bool" where
  "pf_gt (Finite a) (Finite b) = (a > b)"
| "pf_gt PosInf (Finite b) = True"
| "pf_gt PosInf NegInf = True"
| "pf_gt (Finite a) NegInf = True"
| "pf_gt a b = False"

text \<open>\<open>a * c\<close> for a finite, strictly positive constant \<open>c\<close>.\<close>

fun pf_scale :: "pyfloat \<Rightarrow> real \<Rightarrow> pyfloat" where
  "pf_scale (Finite a) c = Finite (a * c)"
| "pf_scale a c = a"

text \<open>
  A value found inside an enrichment record, seen through the two operations the extractor
  applies to it: \<open>PyNum f\<close> is any object that \<open>float()\<close> converts, to \<open>f\<close>;
  \<open>PyDict\<close> is a dictionary; \<open>PyOther\<close> is any other object (\<open>None\<close>, a
  non-numeric string, a list), on which both \<open>float()\<close> and \<open>.get\<close> raise. Which
  exception \<open>float()\<close> raises (\<open>TypeError\<close>, \<open>ValueError\<close>, \<open>OverflowError\<close>)
  is not told apart: the only handler catches them all.
\<close>

datatype pyval = PyNum pyfloat | PyDict "(string \<times> pyval) list" | PyOther

fun py_float :: "pyval \<Rightarrow> error + pyfloat" where
  "py_float (PyNum f) = Inr f"
| "py_float (PyDict d) = Inl TypeError"
| "py_float PyOther = Inl TypeError"

text \<open>\<open>obj.get(key, default)\<close>: only a dictionary has the method.\<close>

fun py_get :: "pyval \<Rightarrow> string \<Rightarrow> pyval \<Rightarrow> error + pyval" where
  "py_get (PyDict d) k dflt = Inr (case map_of d k of None \<Rightarrow> dflt | Some v \<Rightarrow> v)"
| "py_get (PyNum f) k dflt = Inl AttributeError"
| "py_get PyOther k dflt = Inl AttributeError"

type_synonym features = "(string \<times> pyfloat) list"

text \<open>\<open>d.update(e)\<close> on insertion-ordered dictionaries.\<close>

definition dict_update :: "features \<Rightarrow> features \<Rightarrow> features" where
  "dict_update d e = foldl (\<lambda>acc kv. AList.update (fst kv) (snd kv) acc) d e"

text \<open>\<open>d[k]\<close> raises \<open>KeyError\<close> on a missing key.\<close>

definition dict_item :: "features \<Rightarrow> string \<Rightarrow> error + pyfloat" where
  "dict_item d k = (case map_of d k of None \<Rightarrow> Inl KeyError | Some v \<Rightarrow> Inr v)"

section \<open>String methods\<close>

text \<open>
  \<open>str.lower\<close> on code points below 256: the upper-case letters are 65 to 90 and
  192 to 222 without 215, and the lower-case letter is 32 further on, that is bit 5 set.
\<close>

definition lower_char :: "char \<Rightarrow> char" where
  "lower_char c =
     (let n = (of_char c :: nat)
      in if (65 \<le> n \<and> n \<le> 90) \<or> (192 \<le> n \<and> n \<le> 222 \<and> n \<noteq> 215)
         then (case c of Char b0 b1 b2 b3 b4 b5 b6 b7 \<Rightarrow> Char b0 b1 b2 b3 b4 True b6 b7)
         else c)"

definition lower :: "string \<Rightarrow> string" where
  "lower s = map lower_char s"

definition startswith :: "string \<Rightarrow> string \<Rightarrow> bool" where
  "startswith s p = (take (length p) s = p)"

definition endswith :: "string \<Rightarrow> string \<Rightarrow> bool" where
  "endswith s p = (length p \<le> length s \<and> drop (length s - length p) s = p)"

text \<open>\<open>sub in s\<close>: \<open>sub\<close> occurs in \<open>s\<close> as a contiguous substring.\<close>

fun contains :: "string \<Rightarrow> string \<Rightarrow> bool" where
  "contains [] sub = (sub = [])"
| "contains (c # cs) sub = (if startswith (c # cs) sub then True else contains cs sub)"

text \<open>\<open>s.count(c)\<close> for a single character.\<close>

definition count_char :: "string \<Rightarrow> char \<Rightarrow> nat" where
  "count_char s c = length (filter (\<lambda>x. x = c) s)"

text \<open>\<open>s.split(c)\<close> for a single character separator.\<close>

fun split_char :: "char \<Rightarrow> string \<Rightarrow> string list" where
  "split_char sep [] = [[]]"
| "split_char sep (c # cs) =
     (if c = sep then [] # split_char sep cs
      else (case split_char sep cs of
              [] \<Rightarrow> [[c]]
            | w # ws \<Rightarrow> (c # w) # ws))"

text \<open>\<open>s.split('.')[0]\<close>: the split of any string has a first element.\<close>

definition first_label :: "string \<Rightarrow> string" where
  "first_label s = (case split_char (CHR ''.'') s of [] \<Rightarrow> [] | w # ws \<Rightarrow> w)"

text \<open>
  \<open>c.isdigit()\<close> on code points below 256 holds for the ten ASCII digits and for the
  superscripts 178, 179 and 185; the regular expression class \<open>\d\<close> holds for the ASCII
  digits only.
\<close>

definition isdigit :: "char \<Rightarrow> bool" where
  "isdigit c =
     (let n = (of_char c :: nat) in (48 \<le> n \<and> n \<le> 57) \<or> n = 178 \<or> n = 179 \<or> n = 185)"

definition re_digit :: "char \<Rightarrow> bool" where
  "re_digit c = (let n = (of_char c :: nat) in 48 \<le> n \<and> n \<le> 57)"

text \<open>The class \<open>[0-9a-fA-F:]\<close>.\<close>

definition re_hexcolon :: "char \<Rightarrow> bool" where
  "re_hexcolon c =
     (let n = (of_char c :: nat)
      in (48 \<le> n \<and> n \<le> 58) \<or> (97 \<le> n \<and> n \<le> 102) \<or> (65 \<le> n \<and> n \<le> 70))"

fun tails :: "'a list \<Rightarrow> 'a list list" where
  "tails [] = [[]]"
| "tails (y # ys) = (y # ys) # tails ys"

text \<open>
  The ways \<open>\d{1,3}\<close> can match at the start of a string: the remainders after one,
  two or three digits.
\<close>

definition re_digits_1_3 :: "string \<Rightarrow> string list" where
  "re_digits_1_3 s =
     map (\<lambda>k. drop k s) (filter (\<lambda>k. k \<le> length (takeWhile re_digit s)) [1, 2, 3])"

text \<open>The ways \<open>\d{1,3}\.\<close> can match at the start of a string.\<close>

definition re_octet_dot :: "string \<Rightarrow> string list" where
  "re_octet_dot s =
     map tl (filter (\<lambda>r. r \<noteq> [] \<and> hd r = CHR ''.'') (re_digits_1_3 s))"

text \<open>\<open>re.search\<close> of \<open>\d{1,3}\.\d{1,3}\.\d{1,3}\.\d{1,3}\<close>.\<close>

definition re_search_ipv4 :: "string \<Rightarrow> bool" where
  "re_search_ipv4 s =
     list_ex (\<lambda>t. list_ex (\<lambda>r. re_digits_1_3 r \<noteq> [])
                     (concat (map re_octet_dot (concat (map re_octet_dot (re_octet_dot t))))))
       (tails s)"

text \<open>\<open>re.search\<close> of \<open>[0-9a-fA-F:]{10,}\<close>.\<close>

definition re_search_ipv6 :: "string \<Rightarrow> bool" where
  "re_search_ipv6 s = list_ex (\<lambda>t. 10 \<le> length (takeWhile re_hexcolon t)) (tails s)"

section \<open>Library functions the code calls\<close>

text \<open>
  \<open>urllib.parse.urlparse\<close> and \<open>parse_qs\<close> belong to the standard library and are
  parameters of the model. \<open>urlparse\<close> raises \<open>ValueError\<close> on some inputs; of its result
  the code reads the three fields below.
\<close>

record parsed_url =
  netloc :: string
  path :: string
  query :: string

record pylib =
  urlparse :: "string \<Rightarrow> error + parsed_url"
  parse_qs :: "string \<Rightarrow> (string \<times> string list) list"

text \<open>
  \<open>Levenshtein.distance\<close> of the library python-Levenshtein is the edit distance with
  unit costs for insertion, deletion and substitution.
\<close>

fun levenshtein :: "'a list \<Rightarrow> 'a list \<Rightarrow> nat" where
  "levenshtein [] ys = length ys"
| "levenshtein (x # xs) [] = Suc (length xs)"
| "levenshtein (x # xs) (y # ys) =
     min (min (levenshtein xs (y # ys) + 1) (levenshtein (x # xs) ys + 1))
         (levenshtein xs ys + (if x = y then 0 else 1))"

text \<open>
  The same distance computed row by row, as the library does; row \<open>xs\<close> holds the distance
  from \<open>xs\<close> to every suffix of \<open>ys\<close>. It is proved equal to \<open>levenshtein\<close> below and
  serves to evaluate distances.
\<close>

fun next_row :: "'a \<Rightarrow> 'a list \<Rightarrow> nat list \<Rightarrow> nat list" where
  "next_row x [] prev = [hd prev + 1]"
| "next_row x (y # ys) prev =
     (case next_row x ys (tl prev) of
        [] \<Rightarrow> []
      | r # rest \<Rightarrow>
          min (min (hd prev + 1) (r + 1)) (hd (tl prev) + (if x = y then 0 else 1)) # r # rest)"

definition lev_rows :: "'a list \<Rightarrow> 'a list \<Rightarrow> nat list" where
  "lev_rows xs ys = foldr (\<lambda>x row. next_row x ys row) xs (map length (tails ys))"

section \<open>Feature extraction (\<open>app/ml/features.py\<close>)\<close>

definition SUSPICIOUS_KEYWORDS :: "string list" where
  "SUSPICIOUS_KEYWORDS =
     [''login'', ''signin'', ''account'', ''verify'', ''update'', ''confirm'',
      ''secure'', ''banking'', ''paypal'', ''ebay'', ''amazon'', ''apple'',
      ''microsoft'', ''google'', ''password'', ''credential'', ''suspend'']"

definition URL_SHORTENERS :: "string list" where
  "URL_SHORTENERS =
     [''bit.ly'', ''goo.gl'', ''tinyurl.com'', ''t.co'', ''ow.ly'',
      ''buff.ly'', ''is.gd'', ''cli.gs'', ''tiny.cc'']"

definition feature_names :: "string list" where
  "feature_names =
     [''url_length'', ''domain_dots'', ''hyphen_count'', ''path_depth'',
      ''query_param_count'', ''digit_ratio'', ''has_ip_address'',
      ''char_entropy'', ''suspicious_keywords'', ''is_shortened'',
      ''domain_age_days'', ''registration_length_years'', ''has_https'',
      ''valid_ssl'', ''cert_age_days'', ''subdomain_count'',
      ''high_risk_country'', ''as_reputation_score'',
      ''form_count'', ''has_password_field'', ''typosquatting_score'',
      ''gsb_threat_type'', ''vt_positives'', ''in_phishing_list'', ''ip_blocklisted'']"

definition digit_ratio :: "string \<Rightarrow> pyfloat" where
  "digit_ratio url =
     (if length url = 0 then Finite 0
      else Finite (real (length (filter isdigit url)) / real (length url)))"

definition has_ip_address :: "string \<Rightarrow> nat" where
  "has_ip_address domain =
     (if re_search_ipv4 domain then 1 else if re_search_ipv6 domain then 1 else 0)"

text \<open>
  \<open>Counter(s)\<close> has one entry per distinct character; every probability is a positive
  count over the length.
\<close>

definition shannon_entropy :: "string \<Rightarrow> pyfloat" where
  "shannon_entropy s =
     (if length s = 0 then Finite 0
      else Finite (- sum_list (map (\<lambda>p. p * log 2 p)
             (filter (\<lambda>p. p > 0)
                (map (\<lambda>c. real (count_list s c) / real (length s)) (remdups s))))))"

definition count_suspicious_keywords :: "string \<Rightarrow> nat" where
  "count_suspicious_keywords url =
     length (filter (\<lambda>keyword. contains (lower url) keyword) SUSPICIOUS_KEYWORDS)"

definition is_shortened :: "string \<Rightarrow> nat" where
  "is_shortened domain =
     (if list_ex (\<lambda>shortener. contains (lower domain) shortener) URL_SHORTENERS then 1 else 0)"

text \<open>The ten lexical features, in the order the source assigns them.\<close>

definition extract_lexical :: "pylib \<Rightarrow> string \<Rightarrow> parsed_url \<Rightarrow> features" where
  "extract_lexical lib url parsed =
     [(''url_length'', Finite (real (length url))),
      (''domain_dots'', Finite (real (count_char (netloc parsed) (CHR ''.'')))),
      (''hyphen_count'', Finite (real (count_char url (CHR ''-'')))),
      (''path_depth'',
         Finite (real (length (filter (\<lambda>p. p \<noteq> []) (split_char (CHR ''/'') (path parsed)))))),
      (''query_param_count'', Finite (real (length (parse_qs lib (query parsed))))),
      (''digit_ratio'', digit_ratio url),
      (''has_ip_address'', Finite (real (has_ip_address (netloc parsed)))),
      (''char_entropy'', shannon_entropy (netloc parsed)),
      (''suspicious_keywords'', Finite (real (count_suspicious_keywords url))),
      (''is_shortened'', Finite (real (is_shortened (netloc parsed))))]"

text \<open>
  The fifteen enriched features: feature name, section of the enrichment record, field
  of the section and default of the field, one row per assignment of
  \<open>_extract_enriched\<close>, in its order.
\<close>

definition ENRICHED_FIELDS :: "(string \<times> string \<times> string \<times> real) list" where
  "ENRICHED_FIELDS =
     [(''domain_age_days'', ''whois'', ''domain_age_days'', 0),
      (''registration_length_years'', ''whois'', ''registration_length_years'', 0),
      (''has_https'', ''ssl'', ''has_https'', 0),
      (''valid_ssl'', ''ssl'', ''valid_ssl'', 0),
      (''cert_age_days'', ''ssl'', ''cert_age_days'', 0),
      (''subdomain_count'', ''dns'', ''subdomain_count'', 0),
      (''high_risk_country'', ''geo'', ''high_risk_country'', 0),
      (''as_reputation_score'', ''geo'', ''as_reputation_score'', 0.5),
      (''form_count'', ''content'', ''form_count'', 0),
      (''has_password_field'', ''content'', ''has_password_field'', 0),
      (''typosquatting_score'', ''content'', ''typosquatting_score'', 0),
      (''gsb_threat_type'', ''google_safe_browsing'', ''threat_type_code'', 0),
      (''vt_positives'', ''virustotal'', ''positives'', 0),
      (''in_phishing_list'', ''blocklists'', ''in_phishing_list'', 0),
      (''ip_blocklisted'', ''blocklists'', ''ip_blocklisted'', 0)]"

text \<open>\<open>float(enrichment_data.get(section, {}).get(field, default))\<close>.\<close>

definition enriched_field ::
  "(string \<times> pyval) list \<Rightarrow> string \<Rightarrow> string \<Rightarrow> real \<Rightarrow> error + pyfloat" where
  "enriched_field enrichment_data section field dflt =
     (case py_get (PyDict enrichment_data) section (PyDict []) of
        Inl e \<Rightarrow> Inl e
      | Inr section_data \<Rightarrow>
          (case py_get section_data field (PyNum (Finite dflt)) of
             Inl e \<Rightarrow> Inl e
           | Inr v \<Rightarrow> py_float v))"

fun extract_fields ::
  "(string \<times> pyval) list \<Rightarrow> (string \<times> string \<times> string \<times> real) list \<Rightarrow> error + features" where
  "extract_fields enrichment_data [] = Inr []"
| "extract_fields enrichment_data ((name, section, field, dflt) # rest) =
     (case enriched_field enrichment_data section field dflt of
        Inl e \<Rightarrow> Inl e
      | Inr v \<Rightarrow>
          (case extract_fields enrichment_data rest of
             Inl e \<Rightarrow> Inl e
           | Inr fs \<Rightarrow> Inr ((name, v) # fs)))"

definition extract_enriched :: "(string \<times> pyval) list \<Rightarrow> error + features" where
  "extract_enriched enrichment_data = extract_fields enrichment_data ENRICHED_FIELDS"

text \<open>The result of the \<open>except\<close> branch of \<open>extract_all\<close>.\<close>

definition zero_features :: features where
  "zero_features = map (\<lambda>name. (name, Finite 0)) feature_names"

text \<open>
  \<open>extract_all\<close>: the enrichment record is \<open>None\<close> or a dictionary, and the test
  \<open>if enrichment_data\<close> holds for a dictionary that is not empty. Any exception in the
  body leads to the \<open>except\<close> branch.
\<close>

definition extract_all :: "pylib \<Rightarrow> string \<Rightarrow> (string \<times> pyval) list option \<Rightarrow> features" where
  "extract_all lib url enrichment_data =
     (case urlparse lib url of
        Inl e \<Rightarrow> zero_features
      | Inr parsed \<Rightarrow>
          (let features = dict_update [] (extract_lexical lib url parsed)
           in (case enrichment_data of
                 Some (item # items) \<Rightarrow>
                   (case extract_enriched (item # items) of
                      Inl e \<Rightarrow> zero_features
                    | Inr enriched \<Rightarrow> dict_update features enriched)
               | _ \<Rightarrow>
                   foldl (\<lambda>fs feature_name. AList.update feature_name (Finite 0) fs)
                     features (drop 10 feature_names))))"

section \<open>The detector (\<open>app/ml/model.py\<close>)\<close>

subsection \<open>Tables\<close>

text \<open>
  The trusted domains. The source holds them in a set; the list gives them in the order
  they are written, and the code only asks whether some member passes a test.
\<close>

definition WHITELIST :: "string list" where
  "WHITELIST = [
     ''google.com'', ''www.google.com'', ''google.co.uk'', ''google.ca'',
     ''google.com.au'', ''google.de'', ''google.fr'', ''google.it'', ''google.es'',
     ''google.co.in'', ''google.co.jp'', ''google.com.br'', ''bing.com'', ''www.bing.com'',
     ''duckduckgo.com'', ''www.duckduckgo.com'', ''yahoo.com'', ''www.yahoo.com'',
     ''yahoo.co.jp'', ''github.com'', ''www.github.com'', ''github.io'', ''microsoft.com'',
     ''www.microsoft.com'', ''live.com'', ''office.com'', ''azure.com'', ''apple.com'',
     ''www.apple.com'', ''icloud.com'', ''facebook.com'', ''www.facebook.com'', ''fb.com'',
     ''messenger.com'', ''twitter.com'', ''x.com'', ''t.co'', ''linkedin.com'',
     ''www.linkedin.com'', ''instagram.com'', ''www.instagram.com'', ''youtube.com'',
     ''www.youtube.com'', ''youtu.be'', ''whatsapp.com'', ''www.whatsapp.com'',
     ''netflix.com'', ''www.netflix.com'', ''dropbox.com'', ''www.dropbox.com'',
     ''adobe.com'', ''www.adobe.com'', ''amazon.com'', ''www.amazon.com'',
     ''amazon.co.uk'', ''amazon.de'', ''amazon.fr'', ''amazon.it'', ''amazon.es'',
     ''amazon.ca'', ''amazon.in'', ''amazon.co.jp'', ''amazon.com.br'', ''amazon.com.mx'',
     ''amazon.com.au'', ''aws.amazon.com'', ''media-amazon.com'',
     ''ssl-images-amazon.com'', ''ebay.com'', ''www.ebay.com'', ''ebay.co.uk'',
     ''ebay.de'', ''walmart.com'', ''www.walmart.com'', ''target.com'', ''www.target.com'',
     ''bestbuy.com'', ''www.bestbuy.com'', ''aliexpress.com'', ''www.aliexpress.com'',
     ''etsy.com'', ''www.etsy.com'', ''paypal.com'', ''www.paypal.com'', ''stripe.com'',
     ''www.stripe.com'', ''chase.com'', ''www.chase.com'', ''wellsfargo.com'',
     ''www.wellsfargo.com'', ''bankofamerica.com'', ''www.bankofamerica.com'',
     ''americanexpress.com'', ''www.americanexpress.com'', ''wikipedia.org'',
     ''www.wikipedia.org'', ''nytimes.com'', ''www.nytimes.com'', ''cnn.com'',
     ''www.cnn.com'', ''bbc.co.uk'', ''www.bbc.co.uk'', ''bbc.com'', ''reddit.com'',
     ''www.reddit.com'', ''stackoverflow.com'', ''www.stackoverflow.com'', ''medium.com'',
     ''www.medium.com'', ''localhost'', ''127.0.0.1'']"

text \<open>The brands with their legitimate domains, a dictionary in the order written.\<close>

definition TARGET_BRANDS :: "(string \<times> string list) list" where
  "TARGET_BRANDS = [
     (''google'',
       [''google.com'', ''gmail.com'', ''google.co.uk'', ''google.de'', ''google.fr'',
        ''google.it'', ''google.es'', ''google.ca'', ''google.com.au'', ''google.co.in'',
        ''google.co.jp'', ''google.com.br'']),
     (''microsoft'',
       [''microsoft.com'', ''office.com'', ''live.com'', ''azure.com'', ''outlook.com'',
        ''hotmail.com'', ''windows.com'']),
     (''apple'',
       [''apple.com'', ''icloud.com'', ''itunes.com'']),
     (''amazon'',
       [''amazon.com'', ''amazon.co.uk'', ''amazon.de'', ''amazon.fr'', ''amazon.it'',
        ''amazon.es'', ''amazon.ca'', ''amazon.in'', ''amazon.co.jp'', ''amazon.com.br'',
        ''amazon.com.mx'', ''amazon.com.au'', ''aws.amazon.com'']),
     (''paypal'',
       [''paypal.com'', ''paypal.me'']),
     (''netflix'',
       [''netflix.com'']),
     (''facebook'',
       [''facebook.com'', ''fb.com'', ''messenger.com'']),
     (''instagram'',
       [''instagram.com'']),
     (''linkedin'',
       [''linkedin.com'']),
     (''twitter'',
       [''twitter.com'', ''x.com'', ''t.co'']),
     (''dropbox'',
       [''dropbox.com'']),
     (''adobe'',
       [''adobe.com'']),
     (''chase'',
       [''chase.com'']),
     (''wellsfargo'',
       [''wellsfargo.com'']),
     (''bankofamerica'',
       [''bankofamerica.com'']),
     (''ebay'',
       [''ebay.com'', ''ebay.co.uk'', ''ebay.de''])
  ]"

subsection \<open>Data\<close>

datatype verdict = Benign | Suspicious | Malicious | Unknown

text \<open>An entry of \<open>top_features\<close>: the keys \<open>name\<close>, \<open>value\<close>, \<open>contribution\<close>.\<close>

record contribution =
  fc_name :: string
  fc_value :: pyfloat
  fc_contribution :: pyfloat

text \<open>
  The dictionary \<open>additional_info\<close>. The code reads it with \<open>.get\<close> only, so a key
  that is absent and a key bound to \<open>None\<close> are both \<open>None\<close> here; the empty
  dictionary has every field \<open>None\<close>.
\<close>

record diagnostics =
  is_whitelisted_info :: "bool option"
  domain_info :: "string option"
  server_location :: "string option"
  domain_age_days :: "int option"
  dns_valid :: "bool option"
  is_https :: "bool option"
  impersonated_brand :: "string option"

definition empty_info :: diagnostics where
  "empty_info =
     \<lparr>is_whitelisted_info = None, domain_info = None, server_location = None,
      domain_age_days = None, dns_valid = None, is_https = None, impersonated_brand = None\<rparr>"

text \<open>The dictionary \<open>predict\<close> returns.\<close>

record prediction =
  verdict :: verdict
  confidence :: real
  model_version :: string
  top_features :: "contribution list"
  all_features :: features
  additional_info :: diagnostics

subsection \<open>Collaborators\<close>

text \<open>
  What the detector obtains from outside the repository. \<open>w.creation_date\<close> of a WHOIS
  answer is a datetime (microseconds since the epoch here), a list, or something else.
\<close>

datatype whois_date = WDatetime int | WList "whois_date list" | WOther

datatype rdtype = A | MX

text \<open>
  The page \<open>requests.get\<close> and \<open>BeautifulSoup\<close> deliver: the status code, whether some
  form has an input of type password, and \<open>soup.title.string\<close> (empty when absent).
\<close>

record page =
  status_code :: nat
  has_password_form :: bool
  title :: string

text \<open>The answer of the geolocation service: status code and three fields of its JSON.\<close>

record geo_response =
  geo_status_code :: nat
  geo_status :: "string option"
  geo_country :: "string option"
  geo_country_code :: "string option"

text \<open>
  The loaded scaler and model: \<open>scaler.transform\<close>, \<open>model.predict(...)[0]\<close>,
  \<open>model.predict_proba(...)[0]\<close> and \<open>model.feature_importances_\<close> when the model
  has the attribute.
\<close>

record classifier =
  scaler_transform :: "pyfloat list \<Rightarrow> error + pyfloat list"
  model_predict :: "pyfloat list \<Rightarrow> error + int"
  model_predict_proba :: "pyfloat list \<Rightarrow> error + real list"
  feature_importances :: "real list option"

text \<open>
  The environment of one call of \<open>predict\<close>: the availability flags set at import, the
  outside calls, \<open>datetime.now()\<close>, the value \<open>random.random()\<close> returns, and the
  detector's own fields. \<open>backend\<close> is present when \<open>self.model\<close>, \<open>self.scaler\<close>
  and \<open>ML_AVAILABLE\<close> all hold.
\<close>

record env =
  lib :: pylib
  WHOIS_AVAILABLE :: bool
  LEVENSHTEIN_AVAILABLE :: bool
  DNS_AVAILABLE :: bool
  CONTENT_ANALYSIS_AVAILABLE :: bool
  whois_creation_date :: "string \<Rightarrow> error + whois_date"
  now :: int
  dns_resolve :: "string \<Rightarrow> rdtype \<Rightarrow> dns_error + unit"
  requests_get_page :: "string \<Rightarrow> error + page"
  ip_api :: "string \<Rightarrow> error + geo_response"
  backend :: "classifier option"
  MODEL_VERSION :: string
  random :: real

subsection \<open>Whitelist\<close>

text \<open>The loop over the trusted domains, with its \<open>break\<close>.\<close>

fun subdomain_of_trusted :: "string \<Rightarrow> string list \<Rightarrow> bool" where
  "subdomain_of_trusted domain [] = False"
| "subdomain_of_trusted domain (trusted # rest) =
     (if endswith domain (''.'' @ trusted) then True else subdomain_of_trusted domain rest)"

text \<open>The whitelist test of \<open>predict\<close> on \<open>domain = urlparse(url).netloc.lower()\<close>.\<close>

definition is_whitelisted :: "string \<Rightarrow> bool" where
  "is_whitelisted netloc_str =
     (let domain = lower netloc_str
      in if domain \<in> set WHITELIST then True else subdomain_of_trusted domain WHITELIST)"

subsection \<open>Diagnostics\<close>

text \<open>\<open>(datetime.now() - creation_date).days\<close>.\<close>

fun age_of :: "int \<Rightarrow> whois_date \<Rightarrow> int option" where
  "age_of t (WDatetime c) = Some ((t - c) div 86400000000)"
| "age_of t (WList ds) = None"
| "age_of t WOther = None"

definition get_domain_age_days :: "env \<Rightarrow> string \<Rightarrow> int option" where
  "get_domain_age_days e url =
     (case urlparse (lib e) url of
        Inl x \<Rightarrow> None
      | Inr parsed \<Rightarrow>
          (case whois_creation_date e (netloc parsed) of
             Inl x \<Rightarrow> None
           | Inr (WList []) \<Rightarrow> None
           | Inr (WList (d # ds)) \<Rightarrow> age_of (now e) d
           | Inr creation_date \<Rightarrow> age_of (now e) creation_date))"

text \<open>The inner loop of the typosquatting rule, over one brand's legitimate domains.\<close>

fun typosquats :: "string \<Rightarrow> string list \<Rightarrow> bool" where
  "typosquats domain [] = False"
| "typosquats domain (leg_domain # rest) =
     (let leg_base = first_label leg_domain;
          domain_base = first_label domain;
          dist = levenshtein domain_base leg_base
      in if dist > 0 \<and> dist \<le> 2 \<and> length domain_base > 4 then True
         else typosquats domain rest)"

text \<open>The loop over the brands: \<open>continue\<close>, then the keyword rule, then the inner loop.\<close>

fun check_brands :: "string \<Rightarrow> (string \<times> string list) list \<Rightarrow> string option" where
  "check_brands domain [] = None"
| "check_brands domain ((brand, legitimate_domains) # rest) =
     (if domain \<in> set legitimate_domains then check_brands domain rest
      else if contains domain brand then Some brand
      else if typosquats domain legitimate_domains then Some brand
      else check_brands domain rest)"

text \<open>The domain the brand check works on: lower case, a leading \<open>www.\<close> removed.\<close>

definition candidate :: "string \<Rightarrow> string" where
  "candidate netloc_str =
     (let domain = lower netloc_str
      in if startswith domain ''www.'' then drop 4 domain else domain)"

text \<open>\<open>_check_brand_impersonation\<close> from the host of the URL on.\<close>

definition check_domain :: "string \<Rightarrow> string option" where
  "check_domain netloc_str =
     (let domain = candidate netloc_str
      in if domain \<in> set WHITELIST then None else check_brands domain TARGET_BRANDS)"

definition check_brand_impersonation :: "env \<Rightarrow> string \<Rightarrow> string option" where
  "check_brand_impersonation e url =
     (case urlparse (lib e) url of
        Inl x \<Rightarrow> None
      | Inr parsed \<Rightarrow> check_domain (netloc parsed))"

text \<open>
  \<open>_check_dns\<close>: each lookup sits in its own \<open>try\<close> with a bare \<open>except: pass\<close>; the
  outer \<open>except\<close> is reached by a failure of \<open>urlparse\<close> only.
\<close>

definition check_dns :: "env \<Rightarrow> string \<Rightarrow> bool" where
  "check_dns e url =
     (case urlparse (lib e) url of
        Inl x \<Rightarrow> True
      | Inr parsed \<Rightarrow>
          (case dns_resolve e (netloc parsed) A of
             Inr answer \<Rightarrow> True
           | Inl x \<Rightarrow>
               (case dns_resolve e (netloc parsed) MX of
                  Inr answer \<Rightarrow> True
                | Inl y \<Rightarrow> False)))"

text \<open>The number of brands the title names while no legitimate domain of the brand
  occurs in the host.\<close>

definition title_brand_hits :: "string \<Rightarrow> string \<Rightarrow> nat" where
  "title_brand_hits title_lower domain =
     length (filter (\<lambda>(brand, legitimate_domains).
                contains title_lower brand \<and>
                \<not> list_ex (\<lambda>leg_domain. contains domain leg_domain) legitimate_domains)
             TARGET_BRANDS)"

definition analyze_content :: "env \<Rightarrow> string \<Rightarrow> nat" where
  "analyze_content e url =
     (case requests_get_page e url of
        Inl x \<Rightarrow> 0
      | Inr response \<Rightarrow>
          if status_code response \<noteq> 200 then 0
          else
            (let score = (if has_password_form response
                          then (if \<not> startswith url ''https'' then 2 else 1)
                          else 0)
             in (case urlparse (lib e) url of
                   Inl x \<Rightarrow> score
                 | Inr parsed \<Rightarrow>
                     if title response \<noteq> []
                     then score + title_brand_hits (lower (title response)) (netloc parsed)
                     else score)))"

text \<open>\<open>str(x)\<close> inside the f-string, for a JSON field that may be missing.\<close>

fun py_str :: "string option \<Rightarrow> string" where
  "py_str None = ''None''"
| "py_str (Some s) = s"

definition get_server_location :: "env \<Rightarrow> string \<Rightarrow> string" where
  "get_server_location e domain =
     (case ip_api e domain of
        Inl x \<Rightarrow> ''Unknown''
      | Inr response \<Rightarrow>
          if geo_status_code response = 200 \<and> geo_status response = Some ''success''
          then py_str (geo_country response) @ '' '' @ py_str (geo_country_code response)
          else ''Unknown'')"

subsection \<open>Scoring\<close>

text \<open>
  \<open>list.sort(key=..., reverse=True)\<close> is stable: an element is placed in front of the
  first element with a strictly smaller contribution.
\<close>

fun insert_desc :: "contribution \<Rightarrow> contribution list \<Rightarrow> contribution list" where
  "insert_desc x [] = [x]"
| "insert_desc x (y # ys) =
     (if pf_gt (fc_contribution x) (fc_contribution y) then x # y # ys
      else y # insert_desc x ys)"

definition sort_desc :: "contribution list \<Rightarrow> contribution list" where
  "sort_desc xs = foldl (\<lambda>acc x. insert_desc x acc) [] xs"

text \<open>One line of the mock heuristics: \<open>if features[k] > threshold: score += w\<close>.\<close>

definition flag_score :: "features \<Rightarrow> string \<Rightarrow> real \<Rightarrow> nat \<Rightarrow> error + nat" where
  "flag_score fs k threshold w =
     (case dict_item fs k of
        Inl x \<Rightarrow> Inl x
      | Inr v \<Rightarrow> Inr (if pf_gt v (Finite threshold) then w else 0))"

definition mock_score :: "features \<Rightarrow> error + nat" where
  "mock_score fs =
     (case flag_score fs ''suspicious_keywords'' 0 2 of Inl x \<Rightarrow> Inl x | Inr s1 \<Rightarrow>
      case flag_score fs ''is_shortened'' 0 1 of Inl x \<Rightarrow> Inl x | Inr s2 \<Rightarrow>
      case flag_score fs ''has_ip_address'' 0 3 of Inl x \<Rightarrow> Inl x | Inr s3 \<Rightarrow>
      case flag_score fs ''url_length'' 75 1 of Inl x \<Rightarrow> Inl x | Inr s4 \<Rightarrow>
      case flag_score fs ''domain_dots'' 3 1 of Inl x \<Rightarrow> Inl x | Inr s5 \<Rightarrow>
        Inr (s1 + s2 + s3 + s4 + s5))"

definition mock_top_features :: "features \<Rightarrow> contribution list" where
  "mock_top_features fs =
     take 5 (sort_desc
       (map (\<lambda>(name, v). \<lparr>fc_name = name, fc_value = v, fc_contribution = pf_scale v 0.5\<rparr>)
          (filter (\<lambda>(name, v). pf_gt v (Finite 0)) fs)))"

definition mock_predict :: "env \<Rightarrow> string \<Rightarrow> features \<Rightarrow> diagnostics \<Rightarrow> error + prediction" where
  "mock_predict e url fs info =
     (case mock_score fs of
        Inl x \<Rightarrow> Inl x
      | Inr score \<Rightarrow>
          Inr \<lparr>verdict = (if score \<ge> 2 then Malicious
                          else if score \<ge> 1 then Suspicious else Benign),
               confidence = (if score \<ge> 2 then min (0.6 + real score * 0.1) 0.99
                             else if score \<ge> 1 then 0.65
                             else 0.85 + random e * 0.1),
               model_version = MODEL_VERSION e @ ''-mock'',
               top_features = mock_top_features fs,
               all_features = fs,
               additional_info = info\<rparr>)"

text \<open>\<open>xs[i]\<close> for an integer index: a negative index counts from the end.\<close>

definition py_index :: "'a list \<Rightarrow> int \<Rightarrow> error + 'a" where
  "py_index xs i =
     (if 0 \<le> i \<and> i < int (length xs) then Inr (xs ! nat i)
      else if i < 0 \<and> - int (length xs) \<le> i then Inr (xs ! nat (int (length xs) + i))
      else Inl IndexError)"

text \<open>The comprehension of \<open>_get_top_features\<close> over \<open>enumerate(self.feature_names)\<close>.\<close>

fun importance_list ::
  "features \<Rightarrow> real list \<Rightarrow> (nat \<times> string) list \<Rightarrow> error + contribution list" where
  "importance_list fs importances [] = Inr []"
| "importance_list fs importances ((i, name) # rest) =
     (case dict_item fs name of Inl x \<Rightarrow> Inl x | Inr v \<Rightarrow>
      case py_index importances (int i) of Inl x \<Rightarrow> Inl x | Inr w \<Rightarrow>
      case importance_list fs importances rest of Inl x \<Rightarrow> Inl x | Inr cs \<Rightarrow>
        Inr (\<lparr>fc_name = name, fc_value = v, fc_contribution = Finite w\<rparr> # cs))"

definition get_top_features :: "classifier \<Rightarrow> features \<Rightarrow> error + contribution list" where
  "get_top_features m fs =
     (case feature_importances m of
        None \<Rightarrow> Inr []
      | Some importances \<Rightarrow>
          (case importance_list fs importances (enumerate 0 feature_names) of
             Inl x \<Rightarrow> Inl x
           | Inr cs \<Rightarrow> Inr (take 5 (sort_desc cs))))"

text \<open>\<open>[features[name] for name in self.feature_names]\<close>.\<close>

fun feature_array :: "features \<Rightarrow> string list \<Rightarrow> error + pyfloat list" where
  "feature_array fs [] = Inr []"
| "feature_array fs (name # rest) =
     (case dict_item fs name of Inl x \<Rightarrow> Inl x | Inr v \<Rightarrow>
      case feature_array fs rest of Inl x \<Rightarrow> Inl x | Inr vs \<Rightarrow> Inr (v # vs))"

text \<open>\<open>verdict_map.get(prediction, "unknown")\<close>.\<close>

definition verdict_map :: "int \<Rightarrow> verdict" where
  "verdict_map prediction =
     (if prediction = 0 then Benign else if prediction = 1 then Malicious else Unknown)"

subsection \<open>The escalation pass\<close>

text \<open>The three variables the heuristics update: verdict, confidence, top features.\<close>

record pass =
  pass_verdict :: verdict
  pass_confidence :: real
  pass_top_features :: "contribution list"

text \<open>The start of the pass: the classifier's answer.\<close>

definition classify :: "classifier \<Rightarrow> features \<Rightarrow> error + pass" where
  "classify m fs =
     (case feature_array fs feature_names of Inl x \<Rightarrow> Inl x | Inr arr \<Rightarrow>
      case scaler_transform m arr of Inl x \<Rightarrow> Inl x | Inr scaled \<Rightarrow>
      case model_predict m scaled of Inl x \<Rightarrow> Inl x | Inr prediction \<Rightarrow>
      case model_predict_proba m scaled of Inl x \<Rightarrow> Inl x | Inr probabilities \<Rightarrow>
      case py_index probabilities prediction of Inl x \<Rightarrow> Inl x | Inr conf \<Rightarrow>
      case get_top_features m fs of Inl x \<Rightarrow> Inl x | Inr tops \<Rightarrow>
        Inr \<lparr>pass_verdict = verdict_map prediction, pass_confidence = conf,
             pass_top_features = tops\<rparr>)"

definition new_domain_step :: "diagnostics \<Rightarrow> pass \<Rightarrow> pass" where
  "new_domain_step info s =
     (case domain_age_days info of
        None \<Rightarrow> s
      | Some age \<Rightarrow>
          if age < 30 then
            (if pass_verdict s = Benign then
               \<lparr>pass_verdict = Suspicious, pass_confidence = 0.65,
                pass_top_features =
                  \<lparr>fc_name = ''newly_registered_domain'', fc_value = Finite (of_int age),
                   fc_contribution = Finite 0.5\<rparr> # pass_top_features s\<rparr>
             else if pass_verdict s = Suspicious then
               \<lparr>pass_verdict = Malicious,
                pass_confidence = min (pass_confidence s + 0.2) 0.99,
                pass_top_features =
                  \<lparr>fc_name = ''newly_registered_domain'', fc_value = Finite (of_int age),
                   fc_contribution = Finite 0.8\<rparr> # pass_top_features s\<rparr>
             else s)
          else s)"

text \<open>\<open>if additional_info.get("impersonated_brand")\<close>: a string that is not empty.\<close>

definition brand_step :: "diagnostics \<Rightarrow> pass \<Rightarrow> pass" where
  "brand_step info s =
     (case impersonated_brand info of
        None \<Rightarrow> s
      | Some brand \<Rightarrow>
          if brand \<noteq> [] then
            \<lparr>pass_verdict = Malicious, pass_confidence = 0.95,
             pass_top_features =
               \<lparr>fc_name = ''impersonates_'' @ brand, fc_value = Finite 1,
                fc_contribution = Finite 0.9\<rparr> # pass_top_features s\<rparr>
          else s)"

text \<open>\<open>if additional_info.get("dns_valid") is False\<close>.\<close>

definition dns_step :: "diagnostics \<Rightarrow> pass \<Rightarrow> pass" where
  "dns_step info s =
     (if dns_valid info = Some False then
        \<lparr>pass_verdict = Malicious, pass_confidence = 0.9,
         pass_top_features =
           \<lparr>fc_name = ''invalid_dns'', fc_value = Finite 1,
            fc_contribution = Finite 0.8\<rparr> # pass_top_features s\<rparr>
      else s)"

definition content_step :: "env \<Rightarrow> string \<Rightarrow> pass \<Rightarrow> pass" where
  "content_step e url s =
     (if CONTENT_ANALYSIS_AVAILABLE e \<and> pass_verdict s \<noteq> Malicious then
        (let content_score = analyze_content e url
         in if content_score > 0 then
              (if content_score \<ge> 2 then
                 \<lparr>pass_verdict = Malicious, pass_confidence = max (pass_confidence s) 0.9,
                  pass_top_features =
                    \<lparr>fc_name = ''suspicious_content'', fc_value = Finite (real content_score),
                     fc_contribution = Finite 0.7\<rparr> # pass_top_features s\<rparr>
               else
                 \<lparr>pass_verdict = Suspicious, pass_confidence = max (pass_confidence s) 0.7,
                  pass_top_features =
                    \<lparr>fc_name = ''suspicious_content'', fc_value = Finite (real content_score),
                     fc_contribution = Finite 0.5\<rparr> # pass_top_features s\<rparr>)
            else s)
      else s)"

text \<open>The four heuristics in the order of the source.\<close>

definition escalate :: "env \<Rightarrow> string \<Rightarrow> diagnostics \<Rightarrow> pass \<Rightarrow> pass" where
  "escalate e url info s =
     content_step e url (dns_step info (brand_step info (new_domain_step info s)))"

subsection \<open>\<open>predict\<close>\<close>

text \<open>The dictionary returned for a whitelisted host.\<close>

definition whitelist_result :: "env \<Rightarrow> string \<Rightarrow> string \<Rightarrow> prediction" where
  "whitelist_result e url domain =
     \<lparr>verdict = Benign, confidence = 1, model_version = MODEL_VERSION e,
      top_features = [], all_features = [],
      additional_info =
        \<lparr>is_whitelisted_info = Some True, domain_info = Some domain,
         server_location = Some (get_server_location e domain),
         domain_age_days = (if WHOIS_AVAILABLE e then get_domain_age_days e url else None),
         dns_valid = (if DNS_AVAILABLE e then Some (check_dns e url) else None),
         is_https = Some (startswith url ''https''),
         impersonated_brand = None\<rparr>\<rparr>"

text \<open>The block "Calculate additional info"; it fails only when \<open>urlparse\<close> does.\<close>

definition gather_info :: "env \<Rightarrow> string \<Rightarrow> diagnostics" where
  "gather_info e url =
     (case urlparse (lib e) url of
        Inl x \<Rightarrow> empty_info
      | Inr parsed \<Rightarrow>
          \<lparr>is_whitelisted_info = None, domain_info = None,
           server_location = Some (get_server_location e (lower (netloc parsed))),
           domain_age_days = (if WHOIS_AVAILABLE e then get_domain_age_days e url else None),
           dns_valid = (if DNS_AVAILABLE e then Some (check_dns e url) else None),
           is_https = Some (startswith url ''https''),
           impersonated_brand =
             (if LEVENSHTEIN_AVAILABLE e then check_brand_impersonation e url else None)\<rparr>)"

text \<open>Whether \<open>predict\<close> takes the whitelist return.\<close>

definition whitelist_hit :: "env \<Rightarrow> string \<Rightarrow> bool" where
  "whitelist_hit e url =
     (case urlparse (lib e) url of
        Inl x \<Rightarrow> False
      | Inr parsed \<Rightarrow> is_whitelisted (netloc parsed))"

text \<open>\<open>predict\<close> after the whitelist block: features, diagnostics, scoring.\<close>

definition score_url :: "env \<Rightarrow> string \<Rightarrow> (string \<times> pyval) list option \<Rightarrow> error + prediction" where
  "score_url e url enrichment_data =
     (let fs = extract_all (lib e) url enrichment_data; info = gather_info e url
      in (case backend e of
            None \<Rightarrow> mock_predict e url fs info
          | Some m \<Rightarrow>
              (case classify m fs of
                 Inl x \<Rightarrow> mock_predict e url fs info
               | Inr s0 \<Rightarrow>
                   (let s = escalate e url info s0
                    in Inr \<lparr>verdict = pass_verdict s, confidence = pass_confidence s,
                            model_version = MODEL_VERSION e,
                            top_features = pass_top_features s,
                            all_features = fs, additional_info = info\<rparr>))))"

text \<open>
  \<open>predict\<close>: a failure of \<open>urlparse\<close> in the whitelist block is logged and the call
  goes on.
\<close>

definition predict :: "env \<Rightarrow> string \<Rightarrow> (string \<times> pyval) list option \<Rightarrow> error + prediction" where
  "predict e url enrichment_data =
     (case urlparse (lib e) url of
        Inl x \<Rightarrow> score_url e url enrichment_data
      | Inr parsed \<Rightarrow>
          if is_whitelisted (netloc parsed)
          then Inr (whitelist_result e url (lower (netloc parsed)))
          else score_url e url enrichment_data)"

section \<open>Notions of the specification\<close>

text \<open>The severity order benign < suspicious < malicious; \<open>Unknown\<close> is outside it.\<close>

fun verdict_le :: "verdict \<Rightarrow> verdict \<Rightarrow> bool" where
  "verdict_le Benign Benign = True"
| "verdict_le Benign Suspicious = True"
| "verdict_le Benign Malicious = True"
| "verdict_le Suspicious Suspicious = True"
| "verdict_le Suspicious Malicious = True"
| "verdict_le Malicious Malicious = True"
| "verdict_le a b = False"

text \<open>The indicator \<open>[features[k] > threshold]\<close> and the risk of the mock scorer.\<close>

definition indicator :: "features \<Rightarrow> string \<Rightarrow> real \<Rightarrow> nat" where
  "indicator fs k threshold =
     (case map_of fs k of
        None \<Rightarrow> 0
      | Some v \<Rightarrow> if pf_gt v (Finite threshold) then 1 else 0)"

definition spec_risk :: "features \<Rightarrow> nat" where
  "spec_risk fs =
     2 * indicator fs ''suspicious_keywords'' 0 + 1 * indicator fs ''is_shortened'' 0 +
     3 * indicator fs ''has_ip_address'' 0 + 1 * indicator fs ''url_length'' 75 +
     1 * indicator fs ''domain_dots'' 3"

text \<open>
  Every value stored in a section of the enrichment record that \<open>float()\<close> converts is
  converted to a finite float. This speaks of the result of the conversion, not of the
  stored object: a finite \<open>Decimal\<close> beyond the range of a double, or the string
  \<open>inf\<close>, is converted to a float that is not finite.
\<close>

fun finite_value :: "pyval \<Rightarrow> bool" where
  "finite_value (PyNum f) = is_finite f"
| "finite_value (PyDict d) = True"
| "finite_value PyOther = True"

fun finite_section :: "pyval \<Rightarrow> bool" where
  "finite_section (PyDict d) = list_all (\<lambda>kv. finite_value (snd kv)) d"
| "finite_section (PyNum f) = True"
| "finite_section PyOther = True"

definition finite_enrichment :: "(string \<times> pyval) list option \<Rightarrow> bool" where
  "finite_enrichment enrichment_data =
     (case enrichment_data of
        None \<Rightarrow> True
      | Some d \<Rightarrow> list_all (\<lambda>kv. finite_section (snd kv)) d)"

text \<open>The brand rules in the words of the specification.\<close>

definition spec_keyword_flagged :: "string \<Rightarrow> bool" where
  "spec_keyword_flagged domain =
     list_ex (\<lambda>bl. contains domain (fst bl) \<and> domain \<notin> set (snd bl)) TARGET_BRANDS"

definition spec_typosquat :: "string \<Rightarrow> string list \<Rightarrow> bool" where
  "spec_typosquat domain legitimate_domains =
     (\<exists>leg \<in> set legitimate_domains.
        0 < levenshtein (first_label domain) (first_label leg) \<and>
        levenshtein (first_label domain) (first_label leg) \<le> 2 \<and>
        4 < length (first_label domain))"

text \<open>Distance one or two, read off the first entry of the last row.\<close>

definition near_miss :: "string \<Rightarrow> string \<Rightarrow> bool" where
  "near_miss a b =
     (case hd (lev_rows a b) of
        0 \<Rightarrow> False
      | Suc 0 \<Rightarrow> True
      | Suc (Suc 0) \<Rightarrow> True
      | Suc (Suc (Suc n)) \<Rightarrow> False)"

text \<open>
  The first labels of the legitimate domains, and the first labels longer than four
  characters of the trusted and the legitimate domains.
\<close>

definition brand_labels :: "string list" where
  "brand_labels =
     [''google'', ''gmail'', ''microsoft'', ''office'', ''live'', ''azure'', ''outlook'',
      ''hotmail'', ''windows'', ''apple'', ''icloud'', ''itunes'', ''amazon'', ''aws'',
      ''paypal'', ''netflix'', ''facebook'', ''fb'', ''messenger'', ''instagram'',
      ''linkedin'', ''twitter'', ''x'', ''t'', ''dropbox'', ''adobe'', ''chase'',
      ''wellsfargo'', ''bankofamerica'', ''ebay'']"

definition known_labels :: "string list" where
  "known_labels =
     [''google'', ''duckduckgo'', ''yahoo'', ''github'', ''microsoft'', ''office'',
      ''azure'', ''apple'', ''icloud'', ''facebook'', ''messenger'', ''twitter'',
      ''linkedin'', ''instagram'', ''youtube'', ''youtu'', ''whatsapp'', ''netflix'',
      ''dropbox'', ''adobe'', ''amazon'', ''media-amazon'', ''ssl-images-amazon'',
      ''walmart'', ''target'', ''bestbuy'', ''aliexpress'', ''paypal'', ''stripe'',
      ''chase'', ''wellsfargo'', ''bankofamerica'', ''americanexpress'', ''wikipedia'',
      ''nytimes'', ''reddit'', ''stackoverflow'', ''medium'', ''localhost'', ''gmail'',
      ''outlook'', ''hotmail'', ''windows'', ''itunes'']"

section \<open>Example environments\<close>

text \<open>
  \<open>urlparse\<close> as the standard library answers on the strings of the examples: the two
  URLs are split into host, path and query; \<open>http://[\<close> has an unclosed bracket in its
  host and raises \<open>ValueError\<close> ("Invalid IPv6 URL"); a string without scheme, slash,
  \<open>?\<close>, \<open>#\<close> or \<open>;\<close>, such as \<open>not a url\<close>, comes back whole as the path,
  with an empty host and an empty query. The last branch gives this answer to every other
  string; the examples use only strings for which it is the library's answer.
\<close>

definition example_lib :: pylib where
  "example_lib =
     \<lparr>urlparse = (\<lambda>url.
        if url = ''https://www.google.com''
        then Inr \<lparr>netloc = ''www.google.com'', path = [], query = []\<rparr>
        else if url = ''http://paypal-secure-update.com''
        then Inr \<lparr>netloc = ''paypal-secure-update.com'', path = [], query = []\<rparr>
        else if url = ''http://[''
        then Inl ValueError
        else Inr \<lparr>netloc = [], path = url, query = []\<rparr>),
      parse_qs = (\<lambda>q. [])\<rparr>"

text \<open>A backend that answers class 0 with probability 0.8 and has no importances.\<close>

definition example_classifier :: classifier where
  "example_classifier =
     \<lparr>scaler_transform = (\<lambda>arr. Inr arr), model_predict = (\<lambda>arr. Inr 0),
      model_predict_proba = (\<lambda>arr. Inr [0.8, 0.2]), feature_importances = None\<rparr>"

text \<open>A host without network: every outside call fails, every resolver query times out.\<close>

definition offline_env :: env where
  "offline_env =
     \<lparr>lib = example_lib, WHOIS_AVAILABLE = True, LEVENSHTEIN_AVAILABLE = True,
      DNS_AVAILABLE = True, CONTENT_ANALYSIS_AVAILABLE = True,
      whois_creation_date = (\<lambda>domain. Inl RequestError), now = 0,
      dns_resolve = (\<lambda>domain rd. Inl LifetimeTimeout),
      requests_get_page = (\<lambda>url. Inl RequestError),
      ip_api = (\<lambda>domain. Inl RequestError),
      backend = Some example_classifier, MODEL_VERSION = ''v1'', random = 0\<rparr>"

text \<open>Diagnostics that report the brand paypal and a failed DNS check.\<close>

definition paypal_info :: diagnostics where
  "paypal_info =
     \<lparr>is_whitelisted_info = None, domain_info = None, server_location = Some ''Unknown'',
      domain_age_days = None, dns_valid = Some False, is_https = Some False,
      impersonated_brand = Some ''paypal''\<rparr>"

definition benign_pass :: pass where
  "benign_pass = \<lparr>pass_verdict = Benign, pass_confidence = 0.8, pass_top_features = []\<rparr>"

text \<open>The feature vector of the mock scorer example: an IP host and a URL of length 80.\<close>

definition ip_features :: features where
  "ip_features =
     map (\<lambda>name. (name, Finite (if name = ''has_ip_address'' then 1
                                 else if name = ''url_length'' then 80 else 0)))
       feature_names"

text \<open>An enrichment record whose domain age is infinite.\<close>

definition infinite_enrichment :: "(string \<times> pyval) list" where
  "infinite_enrichment = [(''whois'', PyDict [(''domain_age_days'', PyNum PosInf)])]"

text \<open>An enrichment record whose domain age is twelve days.\<close>

definition age_enrichment :: "(string \<times> pyval) list" where
  "age_enrichment = [(''whois'', PyDict [(''domain_age_days'', PyNum (Finite 12))])]"

section \<open>Properties of the escalation pass\<close>

lemma new_domain_step_mono:
  "pass_verdict s \<noteq> Unknown \<Longrightarrow>
     verdict_le (pass_verdict s) (pass_verdict (new_domain_step info s)) \<and>
     pass_verdict (new_domain_step info s) \<noteq> Unknown \<and>
     (pass_verdict s = Malicious \<longrightarrow> pass_verdict (new_domain_step info s) = Malicious)"
  by (cases "pass_verdict s") (auto simp: new_domain_step_def split: option.splits)

lemma brand_step_mono:
  "pass_verdict s \<noteq> Unknown \<Longrightarrow>
     verdict_le (pass_verdict s) (pass_verdict (brand_step info s)) \<and>
     pass_verdict (brand_step info s) \<noteq> Unknown \<and>
     (pass_verdict s = Malicious \<longrightarrow> pass_verdict (brand_step info s) = Malicious)"
  by (cases "pass_verdict s") (auto simp: brand_step_def split: option.splits)

lemma dns_step_mono:
  "pass_verdict s \<noteq> Unknown \<Longrightarrow>
     verdict_le (pass_verdict s) (pass_verdict (dns_step info s)) \<and>
     pass_verdict (dns_step info s) \<noteq> Unknown \<and>
     (pass_verdict s = Malicious \<longrightarrow> pass_verdict (dns_step info s) = Malicious)"
  by (cases "pass_verdict s") (auto simp: dns_step_def)

lemma content_step_mono:
  "pass_verdict s \<noteq> Unknown \<Longrightarrow>
     verdict_le (pass_verdict s) (pass_verdict (content_step e url s)) \<and>
     pass_verdict (content_step e url s) \<noteq> Unknown \<and>
     (pass_verdict s = Malicious \<longrightarrow> pass_verdict (content_step e url s) = Malicious)"
  by (cases "pass_verdict s") (auto simp: content_step_def Let_def)

text \<open>
  Claim C1. When the verdict that enters the escalation pass is one of benign, suspicious
  and malicious, the verdict never decreases in severity from one of the four steps
  (new domain, brand impersonation, invalid DNS, content analysis) to the next, and a
  malicious verdict stays malicious through every later step.
\<close>

theorem escalation_monotone:
  "pass_verdict s0 \<noteq> Unknown \<Longrightarrow>
   (let s1 = new_domain_step info s0; s2 = brand_step info s1;
        s3 = dns_step info s2; s4 = content_step e url s3
    in escalate e url info s0 = s4 \<and>
       verdict_le (pass_verdict s0) (pass_verdict s1) \<and>
       verdict_le (pass_verdict s1) (pass_verdict s2) \<and>
       verdict_le (pass_verdict s2) (pass_verdict s3) \<and>
       verdict_le (pass_verdict s3) (pass_verdict s4) \<and>
       (pass_verdict s0 = Malicious \<longrightarrow> pass_verdict s1 = Malicious) \<and>
       (pass_verdict s1 = Malicious \<longrightarrow> pass_verdict s2 = Malicious) \<and>
       (pass_verdict s2 = Malicious \<longrightarrow> pass_verdict s3 = Malicious) \<and>
       (pass_verdict s3 = Malicious \<longrightarrow> pass_verdict s4 = Malicious))"
proof -
  assume a0: "pass_verdict s0 \<noteq> Unknown"
  note a1 = new_domain_step_mono [OF a0, of info]
  from a1 have n1: "pass_verdict (new_domain_step info s0) \<noteq> Unknown" by simp
  note a2 = brand_step_mono [OF n1, of info]
  from a2 have n2: "pass_verdict (brand_step info (new_domain_step info s0)) \<noteq> Unknown"
    by simp
  note a3 = dns_step_mono [OF n2, of info]
  from a3 have n3:
    "pass_verdict (dns_step info (brand_step info (new_domain_step info s0))) \<noteq> Unknown"
    by simp
  note a4 = content_step_mono [OF n3, of e url]
  show ?thesis
    unfolding Let_def escalate_def using a1 a2 a3 a4 by blast
qed

text \<open>
  Claim C4. The claim asks for the answer true when the lookup mechanism itself fails.
  On a host whose resolver times out on both queries the check answers false: the
  timeouts are swallowed by the inner handlers, and the outer handler with the comment
  "assume valid if check fails" is never reached.
\<close>

theorem check_dns_timeout_false:
  "check_dns offline_env ''http://paypal-secure-update.com'' = False"
  by (simp add: check_dns_def offline_env_def example_lib_def)

text \<open>
  Claim C3, as stated, fails when the DNS flag is false as well: the brand paypal is
  reported, yet the pass ends with confidence 0.9 and with \<open>invalid_dns\<close> in front.
\<close>

theorem brand_overridden_by_dns:
  "impersonated_brand paypal_info = Some ''paypal'' \<and>
   pass_verdict (escalate offline_env ''http://paypal-secure-update.com'' paypal_info benign_pass)
     = Malicious \<and>
   pass_confidence (escalate offline_env ''http://paypal-secure-update.com'' paypal_info benign_pass)
     = 0.9 \<and>
   fc_name (hd (pass_top_features
      (escalate offline_env ''http://paypal-secure-update.com'' paypal_info benign_pass)))
     = ''invalid_dns''"
  by (simp add: escalate_def content_step_def dns_step_def brand_step_def new_domain_step_def
      paypal_info_def benign_pass_def)

text \<open>
  Claim C3, amended. Whenever the diagnostic reports a brand, the brand step sets the
  verdict to malicious and the confidence to 0.95 and puts \<open>impersonates_<brand>\<close>
  with contribution 0.9 in front, whatever the verdict before; the pass ends malicious;
  it ends with that confidence and that first explanation unless the DNS flag is false,
  in which case the DNS step that follows sets 0.9 and puts \<open>invalid_dns\<close> before it.
\<close>

theorem brand_step_forces:
  "impersonated_brand info = Some brand \<Longrightarrow> brand \<noteq> [] \<Longrightarrow>
   (let entry = \<lparr>fc_name = ''impersonates_'' @ brand, fc_value = Finite 1,
                  fc_contribution = Finite 0.9\<rparr>;
        s1 = new_domain_step info s;
        final = escalate e url info s
    in brand_step info s1 =
         \<lparr>pass_verdict = Malicious, pass_confidence = 0.95,
          pass_top_features = entry # pass_top_features s1\<rparr> \<and>
       pass_verdict final = Malicious \<and>
       (dns_valid info \<noteq> Some False \<longrightarrow>
          pass_confidence final = 0.95 \<and>
          pass_top_features final = entry # pass_top_features s1) \<and>
       (dns_valid info = Some False \<longrightarrow>
          pass_confidence final = 0.9 \<and>
          pass_top_features final =
            \<lparr>fc_name = ''invalid_dns'', fc_value = Finite 1, fc_contribution = Finite 0.8\<rparr>
              # entry # pass_top_features s1))"
  by (simp add: escalate_def content_step_def dns_step_def brand_step_def Let_def)

text \<open>The theorems of C1 and C3 at the paypal diagnostics.\<close>

theorem escalation_monotone_witness:
  "pass_verdict benign_pass \<noteq> Unknown \<and>
   verdict_le (pass_verdict benign_pass)
     (pass_verdict (escalate offline_env ''http://paypal-secure-update.com'' paypal_info benign_pass))"
proof -
  have h: "pass_verdict benign_pass \<noteq> Unknown" by (simp add: benign_pass_def)
  have "pass_verdict (escalate offline_env ''http://paypal-secure-update.com'' paypal_info benign_pass) = Malicious"
    using escalation_monotone [OF h, where info = paypal_info and e = offline_env
        and url = "''http://paypal-secure-update.com''"]
    by (simp add: Let_def brand_step_def paypal_info_def dns_step_def content_step_def)
  then show ?thesis using h by (simp add: benign_pass_def)
qed

theorem brand_step_forces_witness:
  "impersonated_brand paypal_info = Some ''paypal'' \<and> ''paypal'' \<noteq> [] \<and>
   pass_verdict (escalate offline_env ''http://paypal-secure-update.com'' paypal_info benign_pass)
     = Malicious \<and>
   brand_step paypal_info (new_domain_step paypal_info benign_pass) =
     \<lparr>pass_verdict = Malicious, pass_confidence = 0.95,
      pass_top_features =
        [\<lparr>fc_name = ''impersonates_paypal'', fc_value = Finite 1,
          fc_contribution = Finite 0.9\<rparr>]\<rparr>"
proof -
  have h1: "impersonated_brand paypal_info = Some ''paypal''" by (simp add: paypal_info_def)
  have h2: "''paypal'' \<noteq> []" by simp
  have s1: "new_domain_step paypal_info benign_pass = benign_pass"
    by (simp add: new_domain_step_def paypal_info_def)
  show ?thesis
    using brand_step_forces [OF h1 h2, where s = benign_pass and e = offline_env
        and url = "''http://paypal-secure-update.com''"]
      h1 s1
    by (simp add: Let_def benign_pass_def)
qed

section \<open>Properties of feature extraction\<close>

lemma update_fresh: "k \<notin> fst ` set al \<Longrightarrow> AList.update k v al = al @ [(k, v)]"
  by (induction al) auto

lemma dict_update_fresh:
  "distinct (map fst e) \<Longrightarrow> fst ` set d \<inter> fst ` set e = {} \<Longrightarrow> dict_update d e = d @ e"
proof (induction e arbitrary: d)
  case Nil
  then show ?case by (simp add: dict_update_def)
next
  case (Cons kv e)
  have fresh: "fst kv \<notin> fst ` set d" using Cons.prems(2) by auto
  have step: "dict_update d (kv # e) = dict_update (AList.update (fst kv) (snd kv) d) e"
    by (simp add: dict_update_def)
  have upd: "AList.update (fst kv) (snd kv) d = d @ [kv]"
    using update_fresh [OF fresh] by simp
  have disj: "fst ` set (d @ [kv]) \<inter> fst ` set e = {}"
    using Cons.prems by auto
  have "dict_update (d @ [kv]) e = (d @ [kv]) @ e"
    using Cons.IH [OF _ disj] Cons.prems(1) by simp
  then show ?case using step upd by simp
qed

lemma zero_loop:
  "foldl (\<lambda>fs name. AList.update name c fs) d names = dict_update d (map (\<lambda>name. (name, c)) names)"
  unfolding dict_update_def by (induction names arbitrary: d) simp_all

lemma extract_fields_names:
  "extract_fields enr fl = Inr fs \<Longrightarrow> map fst fs = map fst fl"
proof (induction fl arbitrary: fs)
  case Nil
  then show ?case by simp
next
  case (Cons row fl)
  obtain name sec field dflt where row: "row = (name, sec, field, dflt)"
    by (cases row) auto
  from Cons.prems row obtain v rest where
    "extract_fields enr fl = Inr rest" and "fs = (name, v) # rest"
    by (auto split: sum.splits)
  then show ?case using Cons.IH row by simp
qed

lemma lexical_names: "map fst (extract_lexical pl url parsed) = take 10 feature_names"
  by (simp add: extract_lexical_def feature_names_def)

lemma enriched_names: "map fst ENRICHED_FIELDS = drop 10 feature_names"
  by (simp add: ENRICHED_FIELDS_def feature_names_def)

lemma feature_names_distinct: "distinct feature_names"
  by (simp add: feature_names_def)

lemma append_names:
  assumes "map fst d = take 10 feature_names" and "map fst e = drop 10 feature_names"
  shows "dict_update d e = d @ e"
proof -
  have dist: "distinct (take 10 feature_names @ drop 10 feature_names)"
    using feature_names_distinct by simp
  have d1: "distinct (map fst e)" using dist assms(2) by simp
  have "set (map fst d) \<inter> set (map fst e) = {}"
    using dist assms unfolding distinct_append by simp
  then have d2: "fst ` set d \<inter> fst ` set e = {}" by simp
  show ?thesis using dict_update_fresh [OF d1 d2] .
qed

lemma extract_all_parsed:
  assumes "urlparse pl url = Inr parsed"
  shows "extract_all pl url None =
           extract_lexical pl url parsed @ map (\<lambda>name. (name, Finite 0)) (drop 10 feature_names)"
    and "extract_all pl url (Some []) =
           extract_lexical pl url parsed @ map (\<lambda>name. (name, Finite 0)) (drop 10 feature_names)"
    and "extract_enriched (item # items) = Inr enriched \<Longrightarrow>
         extract_all pl url (Some (item # items)) = extract_lexical pl url parsed @ enriched"
    and "extract_enriched (item # items) = Inl x \<Longrightarrow>
         extract_all pl url (Some (item # items)) = zero_features"
proof -
  have lex: "dict_update [] (extract_lexical pl url parsed) = extract_lexical pl url parsed"
    using dict_update_fresh [of "extract_lexical pl url parsed" "[]"] feature_names_distinct
    by (simp add: lexical_names)
  have zeros: "dict_update (extract_lexical pl url parsed)
                 (map (\<lambda>name. (name, Finite 0)) (drop 10 feature_names)) =
               extract_lexical pl url parsed @ map (\<lambda>name. (name, Finite 0)) (drop 10 feature_names)"
    by (rule append_names) (simp_all add: lexical_names comp_def)
  show "extract_all pl url None =
           extract_lexical pl url parsed @ map (\<lambda>name. (name, Finite 0)) (drop 10 feature_names)"
    using assms lex zeros by (simp add: extract_all_def zero_loop)
  show "extract_all pl url (Some []) =
           extract_lexical pl url parsed @ map (\<lambda>name. (name, Finite 0)) (drop 10 feature_names)"
    using assms lex zeros by (simp add: extract_all_def zero_loop)
  show "extract_all pl url (Some (item # items)) = extract_lexical pl url parsed @ enriched"
    if e: "extract_enriched (item # items) = Inr enriched"
  proof -
    have "map fst enriched = drop 10 feature_names"
      using extract_fields_names e unfolding extract_enriched_def
      by (simp add: enriched_names [symmetric])
    then have "dict_update (extract_lexical pl url parsed) enriched =
               extract_lexical pl url parsed @ enriched"
      by (intro append_names) (simp_all add: lexical_names)
    then show ?thesis using assms lex e by (simp add: extract_all_def)
  qed
  show "extract_all pl url (Some (item # items)) = zero_features"
    if e: "extract_enriched (item # items) = Inl x"
    using assms e by (simp add: extract_all_def)
qed

lemma extract_all_failed:
  "urlparse pl url = Inl x \<Longrightarrow> extract_all pl url enrichment_data = zero_features"
  by (simp add: extract_all_def)

lemma zero_features_names: "map fst zero_features = feature_names"
  by (simp add: zero_features_def comp_def)

lemma extract_all_names: "map fst (extract_all pl url enrichment_data) = feature_names"
proof (cases "urlparse pl url")
  case (Inl x)
  then show ?thesis by (simp add: extract_all_failed zero_features_names)
next
  case (Inr parsed)
  have join: "take 10 feature_names @ drop 10 feature_names = feature_names" by simp
  show ?thesis
  proof (cases enrichment_data)
    case None
    then show ?thesis using extract_all_parsed(1) [OF Inr] join
      by (simp add: lexical_names comp_def del: append_take_drop_id)
  next
    case (Some d)
    show ?thesis
    proof (cases d)
      case Nil
      then show ?thesis using Some extract_all_parsed(2) [OF Inr] join
        by (simp add: lexical_names comp_def del: append_take_drop_id)
    next
      case (Cons item items)
      show ?thesis
      proof (cases "extract_enriched (item # items)")
        case (Inl x)
        then show ?thesis using Some Cons extract_all_parsed(4) [OF Inr]
          by (simp add: zero_features_names)
      next
        case (Inr enriched)
        have "map fst enriched = drop 10 feature_names"
          using extract_fields_names Inr unfolding extract_enriched_def
          by (simp add: enriched_names [symmetric])
        then show ?thesis
          using Some Cons extract_all_parsed(3) [OF \<open>urlparse pl url = Inr parsed\<close> Inr] join
          by (simp add: lexical_names del: append_take_drop_id)
      qed
    qed
  qed
qed


lemma enriched_field_finite:
  assumes fin: "list_all (\<lambda>kv. finite_section (snd kv)) enr"
    and res: "enriched_field enr sec field dflt = Inr f"
  shows "is_finite f"
proof -
  define sd where "sd = (case map_of enr sec of None \<Rightarrow> PyDict [] | Some v \<Rightarrow> v)"
  have fs: "finite_section sd"
  proof (cases "map_of enr sec")
    case None
    then show ?thesis by (simp add: sd_def)
  next
    case (Some v)
    then have "(sec, v) \<in> set enr" by (rule map_of_SomeD)
    then have "finite_section v" using fin by (auto simp: list_all_iff)
    then show ?thesis using Some by (simp add: sd_def)
  qed
  from res have r2: "(case py_get sd field (PyNum (Finite dflt)) of
                        Inl e \<Rightarrow> Inl e | Inr v \<Rightarrow> py_float v) = Inr f"
    by (simp add: enriched_field_def sd_def)
  then obtain dd where dd: "sd = PyDict dd" by (cases sd) auto
  define v where "v = (case map_of dd field of None \<Rightarrow> PyNum (Finite dflt) | Some w \<Rightarrow> w)"
  have fv: "finite_value v"
  proof (cases "map_of dd field")
    case None
    then show ?thesis by (simp add: v_def)
  next
    case (Some w)
    then have "(field, w) \<in> set dd" by (rule map_of_SomeD)
    then have "finite_value w" using fs dd by (auto simp: list_all_iff)
    then show ?thesis using Some by (simp add: v_def)
  qed
  from r2 dd have "py_float v = Inr f" by (simp add: v_def)
  then have "v = PyNum f" by (cases v) auto
  then show ?thesis using fv by simp
qed

lemma extract_fields_finite:
  "list_all (\<lambda>kv. finite_section (snd kv)) enr \<Longrightarrow> extract_fields enr fl = Inr fs \<Longrightarrow>
   list_all (\<lambda>kv. is_finite (snd kv)) fs"
proof (induction fl arbitrary: fs)
  case Nil
  then show ?case by simp
next
  case (Cons row fl)
  obtain name sec field dflt where row: "row = (name, sec, field, dflt)"
    by (cases row) auto
  from Cons.prems(2) row obtain v rest where
    v: "enriched_field enr sec field dflt = Inr v" and
    rest: "extract_fields enr fl = Inr rest" and fs: "fs = (name, v) # rest"
    by (auto split: sum.splits)
  have "is_finite v" using enriched_field_finite [OF Cons.prems(1) v] .
  then show ?case using Cons.IH [OF Cons.prems(1) rest] fs by simp
qed

lemma lexical_finite: "list_all (\<lambda>kv. is_finite (snd kv)) (extract_lexical pl url parsed)"
  by (simp add: extract_lexical_def digit_ratio_def shannon_entropy_def)

lemma zero_features_finite: "list_all (\<lambda>kv. is_finite (snd kv)) zero_features"
  by (simp add: zero_features_def list_all_iff)

lemma extract_all_finite:
  assumes "finite_enrichment enrichment_data"
  shows "list_all (\<lambda>kv. is_finite (snd kv)) (extract_all pl url enrichment_data)"
proof (cases "urlparse pl url")
  case (Inl x)
  then show ?thesis by (simp add: extract_all_failed zero_features_finite)
next
  case (Inr parsed)
  have zs: "list_all (\<lambda>kv. is_finite (snd kv))
              (map (\<lambda>name. (name, Finite 0)) (drop 10 feature_names))"
    by (simp add: list_all_iff)
  show ?thesis
  proof (cases enrichment_data)
    case None
    then show ?thesis using extract_all_parsed(1) [OF Inr] lexical_finite zs by simp
  next
    case (Some d)
    show ?thesis
    proof (cases d)
      case Nil
      then show ?thesis using Some extract_all_parsed(2) [OF Inr] lexical_finite zs by simp
    next
      case (Cons item items)
      have fin: "list_all (\<lambda>kv. finite_section (snd kv)) (item # items)"
        using assms Some Cons by (simp add: finite_enrichment_def)
      show ?thesis
      proof (cases "extract_enriched (item # items)")
        case (Inl x)
        then show ?thesis using Some Cons extract_all_parsed(4) [OF Inr]
          by (simp add: zero_features_finite)
      next
        case (Inr enriched)
        have "list_all (\<lambda>kv. is_finite (snd kv)) enriched"
          using extract_fields_finite [OF fin] Inr unfolding extract_enriched_def by simp
        then show ?thesis
          using Some Cons extract_all_parsed(3) [OF \<open>urlparse pl url = Inr parsed\<close> Inr]
            lexical_finite by simp
      qed
    qed
  qed
qed

lemma google_parsed:
  "urlparse example_lib ''https://www.google.com'' =
     Inr \<lparr>netloc = ''www.google.com'', path = [], query = []\<rparr>"
  by (simp add: example_lib_def)

lemma infinite_enriched:
  "\<exists>rest. extract_enriched infinite_enrichment = Inr ((''domain_age_days'', PosInf) # rest) \<and>
          map_of rest ''domain_age_days'' = None"
  by (simp add: extract_enriched_def ENRICHED_FIELDS_def infinite_enrichment_def
      enriched_field_def)

text \<open>
  Claim C2, as stated, fails on the finiteness of the values: a number of the enrichment
  record is converted with \<open>float\<close> and stored as it is, so an infinite domain age
  comes out as an infinite feature value.
\<close>

theorem infinite_enrichment_passes_through:
  "map_of (extract_all example_lib ''https://www.google.com'' (Some infinite_enrichment))
     ''domain_age_days'' = Some PosInf \<and> \<not> is_finite PosInf"
proof -
  obtain rest where r: "extract_enriched infinite_enrichment =
      Inr ((''domain_age_days'', PosInf) # rest)"
    using infinite_enriched by blast
  have "extract_all example_lib ''https://www.google.com'' (Some infinite_enrichment) =
        extract_lexical example_lib ''https://www.google.com''
          \<lparr>netloc = ''www.google.com'', path = [], query = []\<rparr> @
        (''domain_age_days'', PosInf) # rest"
    using extract_all_parsed(3) [OF google_parsed] r
    by (simp add: infinite_enrichment_def)
  then show ?thesis by (simp add: extract_lexical_def)
qed

text \<open>
  Claim C2, amended. For every URL string and every optional enrichment record, feature
  extraction returns (it is a total function whose \<open>except\<close> branch is part of the
  model) a mapping with exactly the 25 canonical feature names, in canonical order; when
  \<open>urlparse\<close> fails it returns the all-zero vector; and all values are finite whenever
  \<open>float()\<close> turns every value stored in the sections of the enrichment record into a
  finite float, in particular when no record is supplied.
\<close>

theorem extract_all_total:
  "map fst (extract_all pl url enrichment_data) = feature_names \<and>
   length feature_names = 25 \<and> distinct feature_names \<and>
   (\<forall>x. urlparse pl url = Inl x \<longrightarrow> extract_all pl url enrichment_data = zero_features) \<and>
   list_all (\<lambda>kv. snd kv = Finite 0) zero_features \<and>
   (finite_enrichment enrichment_data \<longrightarrow>
      list_all (\<lambda>kv. is_finite (snd kv)) (extract_all pl url enrichment_data))"
proof -
  have z: "list_all (\<lambda>kv. snd kv = Finite 0) zero_features"
    by (simp add: zero_features_def list_all_iff)
  have l: "length feature_names = 25" by (simp add: feature_names_def)
  show ?thesis
    using extract_all_names extract_all_failed extract_all_finite z l feature_names_distinct
    by blast
qed

lemma bracket_fails: "urlparse example_lib ''http://['' = Inl ValueError"
  by (simp add: example_lib_def)

lemma plain_parsed:
  "urlparse example_lib ''not a url'' = Inr \<lparr>netloc = [], path = ''not a url'', query = []\<rparr>"
  by (simp add: example_lib_def)

lemma age_enriched:
  "\<exists>rest. extract_enriched age_enrichment = Inr ((''domain_age_days'', Finite 12) # rest)"
  by (simp add: extract_enriched_def ENRICHED_FIELDS_def age_enrichment_def enriched_field_def)

lemma age_extracted:
  "map_of (extract_all example_lib ''not a url'' (Some age_enrichment)) ''url_length''
     = Some (Finite 9) \<and>
   map_of (extract_all example_lib ''not a url'' (Some age_enrichment)) ''domain_age_days''
     = Some (Finite 12)"
proof -
  obtain rest where r: "extract_enriched age_enrichment =
      Inr ((''domain_age_days'', Finite 12) # rest)"
    using age_enriched by blast
  have "extract_all example_lib ''not a url'' (Some age_enrichment) =
        extract_lexical example_lib ''not a url''
          \<lparr>netloc = [], path = ''not a url'', query = []\<rparr> @
        (''domain_age_days'', Finite 12) # rest"
    using extract_all_parsed(3) [OF plain_parsed] r
    by (simp add: age_enrichment_def)
  then show ?thesis by (simp add: extract_lexical_def)
qed

text \<open>
  The theorem of C2 at a record that holds a finite domain age: with the URL that
  \<open>urlparse\<close> rejects the result is the all-zero vector; with a string that is no URL
  the 25 names come back with finite values, the length 9 and the age 12 among them.
\<close>

theorem extract_all_total_witness:
  "urlparse example_lib ''http://['' = Inl ValueError \<and>
   extract_all example_lib ''http://['' (Some age_enrichment) = zero_features \<and>
   finite_enrichment (Some age_enrichment) \<and>
   map fst (extract_all example_lib ''not a url'' (Some age_enrichment)) = feature_names \<and>
   list_all (\<lambda>kv. is_finite (snd kv))
     (extract_all example_lib ''not a url'' (Some age_enrichment)) \<and>
   map_of (extract_all example_lib ''not a url'' (Some age_enrichment)) ''url_length''
     = Some (Finite 9) \<and>
   map_of (extract_all example_lib ''not a url'' (Some age_enrichment)) ''domain_age_days''
     = Some (Finite 12)"
proof -
  have h1: "urlparse example_lib ''http://['' = Inl ValueError" by (rule bracket_fails)
  have h2: "finite_enrichment (Some age_enrichment)"
    by (simp add: finite_enrichment_def age_enrichment_def)
  have zero: "extract_all example_lib ''http://['' (Some age_enrichment) = zero_features"
    using extract_all_total [where pl = example_lib and url = "''http://[''"
        and enrichment_data = "Some age_enrichment"] h1
    by blast
  have fin: "map fst (extract_all example_lib ''not a url'' (Some age_enrichment)) = feature_names \<and>
     list_all (\<lambda>kv. is_finite (snd kv))
       (extract_all example_lib ''not a url'' (Some age_enrichment))"
    using extract_all_total [where pl = example_lib and url = "''not a url''"
        and enrichment_data = "Some age_enrichment"] h2
    by blast
  show ?thesis using h1 h2 zero fin age_extracted by blast
qed

text \<open>
  Claim C9, as stated, fails for \<open>as_reputation_score\<close>: without an enrichment record
  its value is 0.0, not 0.5.
\<close>

theorem as_reputation_default_zero:
  "map_of (extract_all example_lib ''https://www.google.com'' None) ''as_reputation_score''
     = Some (Finite 0) \<and> Finite 0 \<noteq> Finite 0.5"
  using extract_all_parsed(1) [OF google_parsed]
  by (simp add: extract_lexical_def feature_names_def)

lemma whois_only_enriched:
  "\<exists>fs. extract_enriched [(''whois'', PyDict [])] = Inr fs \<and>
        map_of fs ''as_reputation_score'' = Some (Finite 0.5)"
  by (simp add: extract_enriched_def ENRICHED_FIELDS_def enriched_field_def)

text \<open>
  Claim C9, amended. When no enrichment record is supplied (\<open>None\<close>, or an empty
  dictionary), each of the 15 enriched features is 0.0, \<open>as_reputation_score\<close>
  included. The default 0.5 belongs to the other branch: a record that is not empty and
  lacks the field, as the record with an empty \<open>whois\<close> section shows.
\<close>

theorem no_enrichment_defaults:
  "list_all (\<lambda>name. map_of (extract_all pl url None) name = Some (Finite 0))
     (drop 10 feature_names) \<and>
   list_all (\<lambda>name. map_of (extract_all pl url (Some [])) name = Some (Finite 0))
     (drop 10 feature_names) \<and>
   drop 10 feature_names =
     [''domain_age_days'', ''registration_length_years'', ''has_https'', ''valid_ssl'',
      ''cert_age_days'', ''subdomain_count'', ''high_risk_country'', ''as_reputation_score'',
      ''form_count'', ''has_password_field'', ''typosquatting_score'', ''gsb_threat_type'',
      ''vt_positives'', ''in_phishing_list'', ''ip_blocklisted''] \<and>
   map_of (extract_all example_lib ''https://www.google.com'' (Some [(''whois'', PyDict [])]))
     ''as_reputation_score'' = Some (Finite 0.5)"
proof -
  have names: "drop 10 feature_names =
     [''domain_age_days'', ''registration_length_years'', ''has_https'', ''valid_ssl'',
      ''cert_age_days'', ''subdomain_count'', ''high_risk_country'', ''as_reputation_score'',
      ''form_count'', ''has_password_field'', ''typosquatting_score'', ''gsb_threat_type'',
      ''vt_positives'', ''in_phishing_list'', ''ip_blocklisted'']"
    by (simp add: feature_names_def)
  have zero: "list_all (\<lambda>name. map_of zero_features name = Some (Finite 0)) (drop 10 feature_names)"
    unfolding names by (simp add: zero_features_def feature_names_def)
  have parsed: "list_all (\<lambda>name. map_of (extract_lexical pl url parsed @
                    map (\<lambda>name. (name, Finite 0)) (drop 10 feature_names)) name = Some (Finite 0))
                  (drop 10 feature_names)" for parsed
    unfolding names by (simp add: extract_lexical_def)
  have a: "list_all (\<lambda>name. map_of (extract_all pl url None) name = Some (Finite 0))
             (drop 10 feature_names)"
  proof (cases "urlparse pl url")
    case (Inl x)
    then show ?thesis using zero by (simp add: extract_all_failed)
  next
    case (Inr p)
    then show ?thesis using parsed [of p] extract_all_parsed(1) [OF Inr] by simp
  qed
  have b: "list_all (\<lambda>name. map_of (extract_all pl url (Some [])) name = Some (Finite 0))
             (drop 10 feature_names)"
  proof (cases "urlparse pl url")
    case (Inl x)
    then show ?thesis using zero by (simp add: extract_all_failed)
  next
    case (Inr p)
    then show ?thesis using parsed [of p] extract_all_parsed(2) [OF Inr] by simp
  qed
  obtain fs where fs: "extract_enriched [(''whois'', PyDict [])] = Inr fs"
    and rep: "map_of fs ''as_reputation_score'' = Some (Finite 0.5)"
    using whois_only_enriched by blast
  have c: "map_of (extract_all example_lib ''https://www.google.com''
              (Some [(''whois'', PyDict [])])) ''as_reputation_score'' = Some (Finite 0.5)"
    using extract_all_parsed(3) [OF google_parsed fs] rep
    by (simp add: extract_lexical_def)
  show ?thesis using a b c names by simp
qed

section \<open>Properties of the scorer and of \<open>predict\<close>\<close>

lemma dict_item_present:
  "map fst fs = feature_names \<Longrightarrow> k \<in> set feature_names \<Longrightarrow>
   \<exists>v. map_of fs k = Some v \<and> dict_item fs k = Inr v"
proof -
  assume n: "map fst fs = feature_names" and k: "k \<in> set feature_names"
  have "k \<in> fst ` set fs" using n k by (metis set_map)
  then obtain v where "map_of fs k = Some v"
    by (metis map_of_eq_None_iff option.exhaust)
  then show ?thesis by (simp add: dict_item_def)
qed

lemma flag_score_indicator:
  assumes "map fst fs = feature_names" and "k \<in> set feature_names"
  shows "flag_score fs k t w = Inr (w * indicator fs k t)"
proof -
  obtain v where "map_of fs k = Some v" and "dict_item fs k = Inr v"
    using dict_item_present [OF assms] by blast
  then show ?thesis by (simp add: flag_score_def indicator_def)
qed

lemma mock_score_risk:
  assumes n: "map fst fs = feature_names"
  shows "mock_score fs = Inr (spec_risk fs)"
proof -
  have k: "''suspicious_keywords'' \<in> set feature_names" "''is_shortened'' \<in> set feature_names"
    "''has_ip_address'' \<in> set feature_names" "''url_length'' \<in> set feature_names"
    "''domain_dots'' \<in> set feature_names"
    by (simp_all add: feature_names_def)
  show ?thesis
    unfolding mock_score_def spec_risk_def
    by (simp add: flag_score_indicator [OF n k(1)] flag_score_indicator [OF n k(2)]
        flag_score_indicator [OF n k(3)] flag_score_indicator [OF n k(4)]
        flag_score_indicator [OF n k(5)])
qed

lemma mock_predict_result:
  assumes n: "map fst fs = feature_names"
  shows "mock_predict e url fs info =
     Inr \<lparr>verdict = (if spec_risk fs \<ge> 2 then Malicious
                      else if spec_risk fs \<ge> 1 then Suspicious else Benign),
          confidence = (if spec_risk fs \<ge> 2 then min (0.6 + real (spec_risk fs) * 0.1) 0.99
                        else if spec_risk fs \<ge> 1 then 0.65
                        else 0.85 + random e * 0.1),
          model_version = MODEL_VERSION e @ ''-mock'',
          top_features = mock_top_features fs,
          all_features = fs,
          additional_info = info\<rparr>"
  by (simp add: mock_predict_def mock_score_risk [OF n])

lemma ip_features_names: "map fst ip_features = feature_names"
  by (simp add: ip_features_def comp_def)

lemma ip_features_risk: "spec_risk ip_features = 4"
  by (simp add: spec_risk_def indicator_def ip_features_def feature_names_def)

lemma predict_without_backend:
  "backend e = None \<Longrightarrow> \<not> whitelist_hit e url \<Longrightarrow>
   predict e url enr = mock_predict e url (extract_all (lib e) url enr) (gather_info e url)"
  by (auto simp: predict_def whitelist_hit_def score_url_def Let_def split: sum.splits)

text \<open>
  Claim C5. For every feature vector (the 25 canonical names) the mock scorer returns a
  result; with risk = 2[suspicious_keywords > 0] + [is_shortened > 0] + 3[has_ip_address > 0]
  + [url_length > 75] + [domain_dots > 3] the verdict is malicious with confidence
  min(0.6 + 0.1 risk, 0.99) when risk is at least 2, suspicious with confidence 0.65 when
  risk is 1, and benign with confidence 0.85 plus a jitter in [0, 0.1) when risk is 0, the
  random source drawing from [0, 1). The vector with has_ip_address 1, url_length 80 and
  zeros elsewhere has risk 4 and gets malicious with confidence 0.99. Without a scoring
  backend \<open>predict\<close> answers with the mock scorer for every host off the whitelist.
\<close>

theorem mock_scorer:
  "map fst fs = feature_names \<Longrightarrow> 0 \<le> random e \<Longrightarrow> random e < 1 \<Longrightarrow>
   (\<exists>r. mock_predict e url fs info = Inr r \<and>
      (2 \<le> spec_risk fs \<longrightarrow>
         verdict r = Malicious \<and> confidence r = min (0.6 + 0.1 * real (spec_risk fs)) 0.99) \<and>
      (spec_risk fs = 1 \<longrightarrow> verdict r = Suspicious \<and> confidence r = 0.65) \<and>
      (spec_risk fs = 0 \<longrightarrow>
         verdict r = Benign \<and> (\<exists>jitter. 0 \<le> jitter \<and> jitter < 0.1 \<and> confidence r = 0.85 + jitter))) \<and>
   spec_risk ip_features = 4 \<and>
   (\<exists>r. mock_predict e url ip_features info = Inr r \<and>
      verdict r = Malicious \<and> confidence r = 0.99) \<and>
   (backend e = None \<longrightarrow> \<not> whitelist_hit e url \<longrightarrow>
      predict e url enr = mock_predict e url (extract_all (lib e) url enr) (gather_info e url))"
proof -
  assume n: "map fst fs = feature_names" and r0: "0 \<le> random e" and r1: "random e < 1"
  have j: "0 \<le> random e * 0.1 \<and> random e * 0.1 < 0.1" using r0 r1 by simp
  have general: "\<exists>r. mock_predict e url fs info = Inr r \<and>
      (2 \<le> spec_risk fs \<longrightarrow>
         verdict r = Malicious \<and> confidence r = min (0.6 + 0.1 * real (spec_risk fs)) 0.99) \<and>
      (spec_risk fs = 1 \<longrightarrow> verdict r = Suspicious \<and> confidence r = 0.65) \<and>
      (spec_risk fs = 0 \<longrightarrow>
         verdict r = Benign \<and> (\<exists>jitter. 0 \<le> jitter \<and> jitter < 0.1 \<and> confidence r = 0.85 + jitter))"
  proof -
    have jit: "spec_risk fs = 0 \<Longrightarrow>
      \<exists>jitter. 0 \<le> jitter \<and> jitter < 0.1 \<and> 0.85 + random e * 0.1 = 0.85 + jitter"
      using j by blast
    show ?thesis
      unfolding mock_predict_result [OF n] using jit by (simp add: mult.commute)
  qed
  have example: "\<exists>r. mock_predict e url ip_features info = Inr r \<and>
      verdict r = Malicious \<and> confidence r = 0.99"
    by (simp add: mock_predict_result [OF ip_features_names] ip_features_risk)
  show ?thesis using general example ip_features_risk predict_without_backend by blast
qed

text \<open>The theorem of C5 at the example vector.\<close>

theorem mock_scorer_witness:
  "map fst ip_features = feature_names \<and> 0 \<le> random offline_env \<and> random offline_env < 1 \<and>
   (\<exists>r. mock_predict offline_env ''http://10.0.0.1/'' ip_features paypal_info = Inr r \<and>
      verdict r = Malicious \<and> confidence r = 0.99)"
proof -
  have h1: "map fst ip_features = feature_names" by (rule ip_features_names)
  have h2: "0 \<le> random offline_env" by (simp add: offline_env_def)
  have h3: "random offline_env < 1" by (simp add: offline_env_def)
  show ?thesis
    using mock_scorer [OF h1 h2 h3, where url = "''http://10.0.0.1/''" and info = paypal_info]
      h1 h2 h3 by blast
qed

lemma google_whitelisted: "is_whitelisted ''www.google.com''"
  by (simp add: is_whitelisted_def WHITELIST_def lower_def lower_char_def)

text \<open>
  Claim C10, as stated, fails on the whitelist return: for \<open>https://www.google.com\<close>
  the result carries the empty dictionary as \<open>all_features\<close>.
\<close>

theorem whitelist_result_has_no_features:
  "predict offline_env ''https://www.google.com'' None =
     Inr (whitelist_result offline_env ''https://www.google.com'' ''www.google.com'') \<and>
   all_features (whitelist_result offline_env ''https://www.google.com'' ''www.google.com'') = [] \<and>
   feature_names \<noteq> []"
  using google_whitelisted
  by (simp add: predict_def offline_env_def example_lib_def whitelist_result_def
      lower_def lower_char_def feature_names_def)

text \<open>
  Claim C10, amended. \<open>predict\<close> always returns a result. Off the whitelist return its
  \<open>all_features\<close> holds exactly the 25 canonical feature names in canonical order; the
  whitelist return carries the empty mapping.
\<close>

theorem predict_features:
  "\<exists>r. predict e url enrichment_data = Inr r \<and>
        (if whitelist_hit e url then all_features r = []
         else map fst (all_features r) = feature_names \<and> length (all_features r) = 25)"
proof -
  define fs where "fs = extract_all (lib e) url enrichment_data"
  have n: "map fst fs = feature_names" unfolding fs_def by (rule extract_all_names)
  have "length (map fst fs) = 25" unfolding n by (simp add: feature_names_def)
  then have l: "length fs = 25" by simp
  have mock: "\<exists>r. mock_predict e url fs (gather_info e url) = Inr r \<and> all_features r = fs"
    by (simp add: mock_predict_result [OF n])
  have scored: "\<exists>r. score_url e url enrichment_data = Inr r \<and> all_features r = fs"
    using mock unfolding score_url_def fs_def [symmetric]
    by (auto simp: Let_def split: option.splits sum.splits)
  show ?thesis
  proof (cases "whitelist_hit e url")
    case True
    then show ?thesis
      by (auto simp: predict_def whitelist_hit_def whitelist_result_def split: sum.splits)
  next
    case False
    then have "predict e url enrichment_data = score_url e url enrichment_data"
      by (auto simp: predict_def whitelist_hit_def split: sum.splits)
    then show ?thesis using scored False n l by auto
  qed
qed

section \<open>Properties of the whitelist\<close>

lemma endswith_suffix: "endswith s p \<longleftrightarrow> suffix p s"
proof
  assume "endswith s p"
  then have "s = take (length s - length p) s @ p"
    unfolding endswith_def by (metis append_take_drop_id)
  then show "suffix p s" unfolding suffix_def by blast
next
  assume "suffix p s"
  then obtain q where "s = q @ p" unfolding suffix_def by blast
  then show "endswith s p" by (simp add: endswith_def)
qed

lemma subdomain_of_trusted_iff:
  "subdomain_of_trusted d ts \<longleftrightarrow> (\<exists>t \<in> set ts. endswith d (''.'' @ t))"
  by (induction ts) auto

lemma whitelist_lower: "list_all (\<lambda>t. lower t = t) WHITELIST"
  by (simp add: WHITELIST_def lower_def lower_char_def)

lemma accounts_google: "is_whitelisted ''accounts.google.com''"
  by (simp add: is_whitelisted_def WHITELIST_def lower_def lower_char_def endswith_def)

lemma notgoogle: "\<not> is_whitelisted ''notgoogle.com''"
  by (simp add: is_whitelisted_def WHITELIST_def lower_def lower_char_def endswith_def)

lemma upper_google: "is_whitelisted ''GOOGLE.COM''"
  by (simp add: is_whitelisted_def WHITELIST_def lower_def lower_char_def endswith_def)

lemma mixed_accounts_google: "is_whitelisted ''Accounts.Google.COM''"
  by (simp add: is_whitelisted_def WHITELIST_def lower_def lower_char_def endswith_def)

lemma mixed_notgoogle: "\<not> is_whitelisted ''NotGoogle.Com''"
  by (simp add: is_whitelisted_def WHITELIST_def lower_def lower_char_def endswith_def)

lemma lower_google: "lower ''Accounts.Google.COM'' = ''accounts.google.com''"
  by (simp add: lower_def lower_char_def)

text \<open>
  Claim C6. For every host string the whitelist test holds if and only if, read in lower
  case, the host equals a trusted entry or ends with a dot followed by a trusted entry.
  Case is ignored: \<open>GOOGLE.COM\<close> and \<open>Accounts.Google.COM\<close> are trusted as
  \<open>accounts.google.com\<close> is, and \<open>NotGoogle.Com\<close> is not trusted as
  \<open>notgoogle.com\<close> is not.
\<close>

theorem whitelist_exact_or_subdomain:
  "(is_whitelisted d \<longleftrightarrow>
      (\<exists>t \<in> set WHITELIST. lower d = lower t \<or> suffix (''.'' @ lower t) (lower d))) \<and>
   lower ''Accounts.Google.COM'' = ''accounts.google.com'' \<and>
   is_whitelisted ''accounts.google.com'' \<and> \<not> is_whitelisted ''notgoogle.com'' \<and>
   is_whitelisted ''GOOGLE.COM'' \<and> is_whitelisted ''Accounts.Google.COM'' \<and>
   \<not> is_whitelisted ''NotGoogle.Com''"
proof -
  have low: "\<And>t. t \<in> set WHITELIST \<Longrightarrow> lower t = t"
    using whitelist_lower by (simp add: list_all_iff)
  have "is_whitelisted d \<longleftrightarrow>
        (lower d \<in> set WHITELIST \<or> (\<exists>t \<in> set WHITELIST. suffix (''.'' @ t) (lower d)))"
    by (simp add: is_whitelisted_def Let_def subdomain_of_trusted_iff endswith_suffix)
  also have "\<dots> \<longleftrightarrow>
        (\<exists>t \<in> set WHITELIST. lower d = lower t \<or> suffix (''.'' @ lower t) (lower d))"
    using low by auto
  finally show ?thesis
    using accounts_google notgoogle upper_google mixed_accounts_google mixed_notgoogle
      lower_google
    by simp
qed

section \<open>Properties of the brand check\<close>

lemma tails_nonempty: "tails ys \<noteq> []"
  by (cases ys) simp_all

lemma hd_tails: "hd (tails ys) = ys"
  by (cases ys) simp_all

lemma levenshtein_Nil2: "levenshtein xs [] = length xs"
  by (cases xs) simp_all

lemma next_row_levenshtein:
  "next_row x ys (map (levenshtein xs) (tails ys)) = map (levenshtein (x # xs)) (tails ys)"
proof (induction ys)
  case Nil
  show ?case by (simp add: levenshtein_Nil2)
next
  case (Cons y ys)
  obtain r rest where rows: "map (levenshtein (x # xs)) (tails ys) = r # rest"
    using tails_nonempty [of ys] by (cases "tails ys") auto
  have r: "r = levenshtein (x # xs) ys"
    using rows hd_tails [of ys] tails_nonempty [of ys] by (cases "tails ys") auto
  have q: "hd (map (levenshtein xs) (tails ys)) = levenshtein xs ys"
    using hd_tails [of ys] tails_nonempty [of ys] by (simp add: hd_map)
  show ?case using Cons.IH rows r q by simp
qed

lemma lev_rows_levenshtein: "lev_rows xs ys = map (levenshtein xs) (tails ys)"
  unfolding lev_rows_def by (induction xs) (simp_all add: next_row_levenshtein)

lemma levenshtein_rows: "levenshtein xs ys = hd (lev_rows xs ys)"
  using hd_tails [of ys] tails_nonempty [of ys] by (simp add: lev_rows_levenshtein hd_map)

lemma far_1:
  "list_all (\<lambda>b. \<not> near_miss ''google'' b) brand_labels \<and>
   list_all (\<lambda>b. \<not> near_miss ''duckduckgo'' b) brand_labels \<and>
   list_all (\<lambda>b. \<not> near_miss ''yahoo'' b) brand_labels \<and>
   list_all (\<lambda>b. \<not> near_miss ''github'' b) brand_labels"
  by code_simp

lemma far_2:
  "list_all (\<lambda>b. \<not> near_miss ''microsoft'' b) brand_labels \<and>
   list_all (\<lambda>b. \<not> near_miss ''office'' b) brand_labels \<and>
   list_all (\<lambda>b. \<not> near_miss ''azure'' b) brand_labels \<and>
   list_all (\<lambda>b. \<not> near_miss ''apple'' b) brand_labels"
  by code_simp

lemma far_3:
  "list_all (\<lambda>b. \<not> near_miss ''icloud'' b) brand_labels \<and>
   list_all (\<lambda>b. \<not> near_miss ''facebook'' b) brand_labels \<and>
   list_all (\<lambda>b. \<not> near_miss ''messenger'' b) brand_labels \<and>
   list_all (\<lambda>b. \<not> near_miss ''twitter'' b) brand_labels"
  by code_simp

lemma far_4:
  "list_all (\<lambda>b. \<not> near_miss ''linkedin'' b) brand_labels \<and>
   list_all (\<lambda>b. \<not> near_miss ''instagram'' b) brand_labels \<and>
   list_all (\<lambda>b. \<not> near_miss ''youtube'' b) brand_labels \<and>
   list_all (\<lambda>b. \<not> near_miss ''youtu'' b) brand_labels"
  by code_simp

lemma far_5:
  "list_all (\<lambda>b. \<not> near_miss ''whatsapp'' b) brand_labels \<and>
   list_all (\<lambda>b. \<not> near_miss ''netflix'' b) brand_labels \<and>
   list_all (\<lambda>b. \<not> near_miss ''dropbox'' b) brand_labels \<and>
   list_all (\<lambda>b. \<not> near_miss ''adobe'' b) brand_labels"
  by code_simp

lemma far_6:
  "list_all (\<lambda>b. \<not> near_miss ''amazon'' b) brand_labels \<and>
   list_all (\<lambda>b. \<not> near_miss ''media-amazon'' b) brand_labels \<and>
   list_all (\<lambda>b. \<not> near_miss ''ssl-images-amazon'' b) brand_labels \<and>
   list_all (\<lambda>b. \<not> near_miss ''walmart'' b) brand_labels"
  by code_simp

lemma far_7:
  "list_all (\<lambda>b. \<not> near_miss ''target'' b) brand_labels \<and>
   list_all (\<lambda>b. \<not> near_miss ''bestbuy'' b) brand_labels \<and>
   list_all (\<lambda>b. \<not> near_miss ''aliexpress'' b) brand_labels \<and>
   list_all (\<lambda>b. \<not> near_miss ''paypal'' b) brand_labels"
  by code_simp

lemma far_8:
  "list_all (\<lambda>b. \<not> near_miss ''stripe'' b) brand_labels \<and>
   list_all (\<lambda>b. \<not> near_miss ''chase'' b) brand_labels \<and>
   list_all (\<lambda>b. \<not> near_miss ''wellsfargo'' b) brand_labels \<and>
   list_all (\<lambda>b. \<not> near_miss ''bankofamerica'' b) brand_labels"
  by code_simp

lemma far_9:
  "list_all (\<lambda>b. \<not> near_miss ''americanexpress'' b) brand_labels \<and>
   list_all (\<lambda>b. \<not> near_miss ''wikipedia'' b) brand_labels \<and>
   list_all (\<lambda>b. \<not> near_miss ''nytimes'' b) brand_labels \<and>
   list_all (\<lambda>b. \<not> near_miss ''reddit'' b) brand_labels"
  by code_simp

lemma far_10:
  "list_all (\<lambda>b. \<not> near_miss ''stackoverflow'' b) brand_labels \<and>
   list_all (\<lambda>b. \<not> near_miss ''medium'' b) brand_labels \<and>
   list_all (\<lambda>b. \<not> near_miss ''localhost'' b) brand_labels \<and>
   list_all (\<lambda>b. \<not> near_miss ''gmail'' b) brand_labels"
  by code_simp

lemma far_11:
  "list_all (\<lambda>b. \<not> near_miss ''outlook'' b) brand_labels \<and>
   list_all (\<lambda>b. \<not> near_miss ''hotmail'' b) brand_labels \<and>
   list_all (\<lambda>b. \<not> near_miss ''windows'' b) brand_labels \<and>
   list_all (\<lambda>b. \<not> near_miss ''itunes'' b) brand_labels"
  by code_simp



lemma near_miss_iff: "near_miss a b \<longleftrightarrow> 0 < levenshtein a b \<and> levenshtein a b \<le> 2"
  unfolding near_miss_def levenshtein_rows by (auto split: nat.splits)

lemma typosquats_spec: "typosquats d legs \<longleftrightarrow> spec_typosquat d legs"
  by (induction legs) (auto simp: spec_typosquat_def Let_def)

lemma spec_typosquat_near:
  "spec_typosquat d legs \<longleftrightarrow>
     4 < length (first_label d) \<and> (\<exists>l \<in> set legs. near_miss (first_label d) (first_label l))"
  by (auto simp: spec_typosquat_def near_miss_iff)

lemma typosquats_eval:
  "typosquats d legs =
     (if 4 < length (first_label d)
      then list_ex (\<lambda>l. near_miss (first_label d) (first_label l)) legs else False)"
  by (auto simp: typosquats_spec spec_typosquat_near list_ex_iff)

lemma brand_labels_cover:
  "list_all (\<lambda>bl. list_all (\<lambda>l. first_label l \<in> set brand_labels) (snd bl)) TARGET_BRANDS"
  by code_simp

lemma known_labels_cover:
  "list_all (\<lambda>d. if 4 < length (first_label d) then first_label d \<in> set known_labels else True)
     (WHITELIST @ concat (map snd TARGET_BRANDS))"
  by code_simp

lemma known_far: "a \<in> set known_labels \<Longrightarrow> list_all (\<lambda>b. \<not> near_miss a b) brand_labels"
  unfolding known_labels_def
  using far_1 far_2 far_3 far_4 far_5 far_6 far_7 far_8 far_9 far_10 far_11
  by auto

lemma trusted_never_typosquats:
  assumes d: "d \<in> set WHITELIST \<or> d \<in> set (concat (map snd TARGET_BRANDS))"
    and bl: "bl \<in> set TARGET_BRANDS"
  shows "\<not> spec_typosquat d (snd bl)"
proof
  assume "spec_typosquat d (snd bl)"
  then obtain l where long: "4 < length (first_label d)" and l: "l \<in> set (snd bl)"
    and near: "near_miss (first_label d) (first_label l)"
    unfolding spec_typosquat_near by blast
  have "d \<in> set (WHITELIST @ concat (map snd TARGET_BRANDS))" using d by auto
  then have "first_label d \<in> set known_labels"
    using known_labels_cover long unfolding list_all_iff by meson
  then have far: "list_all (\<lambda>b. \<not> near_miss (first_label d) b) brand_labels"
    by (rule known_far)
  have "first_label l \<in> set brand_labels"
    using brand_labels_cover bl l unfolding list_all_iff by blast
  then show False using far near unfolding list_all_iff by blast
qed

lemma check_brands_find:
  assumes "\<forall>bl \<in> set tb. \<not> (contains d (fst bl) \<and> d \<notin> set (snd bl))"
    and "\<forall>bl \<in> set tb. d \<in> set (snd bl) \<longrightarrow> \<not> spec_typosquat d (snd bl)"
  shows "check_brands d tb = map_option fst (find (\<lambda>bl. spec_typosquat d (snd bl)) tb)"
  using assms
proof (induction tb)
  case Nil
  then show ?case by simp
next
  case (Cons bl tb)
  obtain b legs where bl: "bl = (b, legs)" by (cases bl) auto
  show ?case using Cons bl by (auto simp: typosquats_spec)
qed

lemma check_brands_none:
  assumes "\<forall>bl \<in> set tb. d \<in> set (snd bl) \<or> (\<not> contains d (fst bl) \<and> \<not> spec_typosquat d (snd bl))"
  shows "check_brands d tb = None"
  using assms
proof (induction tb)
  case Nil
  then show ?case by simp
next
  case (Cons bl tb)
  obtain b legs where bl: "bl = (b, legs)" by (cases bl) auto
  show ?case using Cons bl by (auto simp: typosquats_spec)
qed

lemma www_closed:
  "list_all (\<lambda>w. if startswith w ''www.'' then drop 4 w \<in> set WHITELIST else True) WHITELIST"
  by code_simp


lemma legit_no_foreign_keyword:
  "list_all (\<lambda>d. if d \<in> set WHITELIST then True
                 else list_all (\<lambda>bl. if d \<in> set (snd bl) then True else \<not> contains d (fst bl))
                        TARGET_BRANDS)
     (concat (map snd TARGET_BRANDS))"
  by code_simp

lemma spec_typosquat_exec:
  "spec_typosquat d legs =
     (4 < length (first_label d) \<and>
      list_ex (\<lambda>l. near_miss (first_label d) (first_label l)) legs)"
  by (auto simp: spec_typosquat_near list_ex_iff)

lemma candidate_plain:
  "candidate ''adple.com'' = ''adple.com'' \<and> candidate ''g0ogle.com'' = ''g0ogle.com'' \<and>
   candidate ''goooooogle.com'' = ''goooooogle.com'' \<and> candidate ''www.gmail.com'' = ''gmail.com''"
  by (simp add: candidate_def lower_def lower_char_def startswith_def)

lemma examples_no_keyword:
  "\<not> spec_keyword_flagged ''adple.com'' \<and> \<not> spec_keyword_flagged ''g0ogle.com'' \<and>
   \<not> spec_keyword_flagged ''goooooogle.com''"
  by code_simp

lemma adple_find:
  "find (\<lambda>bl. 4 < length (first_label ''adple.com'') \<and>
              list_ex (\<lambda>l. near_miss (first_label ''adple.com'') (first_label l)) (snd bl))
     TARGET_BRANDS = Some (''apple'', [''apple.com'', ''icloud.com'', ''itunes.com''])"
  by code_simp

lemma g0ogle_find:
  "map_option fst (find (\<lambda>bl. 4 < length (first_label ''g0ogle.com'') \<and>
              list_ex (\<lambda>l. near_miss (first_label ''g0ogle.com'') (first_label l)) (snd bl))
     TARGET_BRANDS) = Some ''google''"
  by code_simp

lemma goooooogle_find:
  "find (\<lambda>bl. 4 < length (first_label ''goooooogle.com'') \<and>
              list_ex (\<lambda>l. near_miss (first_label ''goooooogle.com'') (first_label l)) (snd bl))
     TARGET_BRANDS = None"
  by code_simp

lemma adple_adobe:
  "4 < length (first_label ''adple.com'') \<and>
   list_ex (\<lambda>l. near_miss (first_label ''adple.com'') (first_label l)) [''adobe.com'']"
  by code_simp

lemma gmail_legit: "list_ex (\<lambda>bl. ''gmail.com'' \<in> set (snd bl)) TARGET_BRANDS \<and> ''gmail.com'' \<notin> set WHITELIST"
  by code_simp

lemma candidate_whitelisted:
  assumes "lower n \<in> set WHITELIST"
  shows "candidate n \<in> set WHITELIST"
proof (cases "startswith (lower n) ''www.''")
  case True
  then have "drop 4 (lower n) \<in> set WHITELIST"
    using www_closed assms unfolding list_all_iff by meson
  then show ?thesis using True by (simp add: candidate_def)
next
  case False
  then show ?thesis using assms by (simp add: candidate_def)
qed

lemma check_domain_trusted:
  assumes "candidate n \<in> set WHITELIST \<or> candidate n \<in> set (concat (map snd TARGET_BRANDS))"
  shows "check_domain n = None"
proof (cases "candidate n \<in> set WHITELIST")
  case True
  then show ?thesis by (simp add: check_domain_def)
next
  case False
  define d where "d = candidate n"
  have legit: "d \<in> set (concat (map snd TARGET_BRANDS))" and nw: "d \<notin> set WHITELIST"
    using assms False by (simp_all add: d_def)
  have nokw: "\<forall>bl \<in> set TARGET_BRANDS. d \<in> set (snd bl) \<or> \<not> contains d (fst bl)"
    using legit_no_foreign_keyword legit nw unfolding list_all_iff by meson
  have "\<forall>bl \<in> set TARGET_BRANDS.
          d \<in> set (snd bl) \<or> (\<not> contains d (fst bl) \<and> \<not> spec_typosquat d (snd bl))"
    using nokw trusted_never_typosquats legit by blast
  then have "check_brands d TARGET_BRANDS = None" by (rule check_brands_none)
  then show ?thesis using nw by (simp add: check_domain_def d_def [symmetric])
qed

text \<open>
  Claim C8. A host that, after lower-casing and stripping a leading \<open>www.\<close>, is a
  legitimate domain of some brand or a whitelist entry (or that is a whitelist entry
  before stripping) is never flagged: the brand check returns none.
\<close>

theorem trusted_domains_never_flagged:
  "candidate n \<in> set WHITELIST \<or> lower n \<in> set WHITELIST \<or>
   list_ex (\<lambda>bl. candidate n \<in> set (snd bl)) TARGET_BRANDS \<Longrightarrow>
   check_domain n = None"
proof -
  assume a: "candidate n \<in> set WHITELIST \<or> lower n \<in> set WHITELIST \<or>
             list_ex (\<lambda>bl. candidate n \<in> set (snd bl)) TARGET_BRANDS"
  have "candidate n \<in> set WHITELIST \<or> candidate n \<in> set (concat (map snd TARGET_BRANDS))"
    using a candidate_whitelisted unfolding list_ex_iff by auto
  then show ?thesis by (rule check_domain_trusted)
qed

lemma check_domain_first_typosquat:
  "\<not> spec_keyword_flagged (candidate n) \<Longrightarrow>
   check_domain n =
     map_option fst (find (\<lambda>bl. spec_typosquat (candidate n) (snd bl)) TARGET_BRANDS)"
proof -
  assume nk: "\<not> spec_keyword_flagged (candidate n)"
  define d where "d = candidate n"
  have kw: "\<forall>bl \<in> set TARGET_BRANDS. \<not> (contains d (fst bl) \<and> d \<notin> set (snd bl))"
    using nk unfolding spec_keyword_flagged_def list_ex_iff d_def by blast
  have own: "\<forall>bl \<in> set TARGET_BRANDS. d \<in> set (snd bl) \<longrightarrow> \<not> spec_typosquat d (snd bl)"
  proof (intro ballI impI)
    fix bl assume bl: "bl \<in> set TARGET_BRANDS" and "d \<in> set (snd bl)"
    then have "d \<in> set (concat (map snd TARGET_BRANDS))" by auto
    then show "\<not> spec_typosquat d (snd bl)" using trusted_never_typosquats bl by blast
  qed
  show ?thesis
  proof (cases "d \<in> set WHITELIST")
    case True
    then have "\<forall>bl \<in> set TARGET_BRANDS. \<not> spec_typosquat d (snd bl)"
      using trusted_never_typosquats by blast
    then have "find (\<lambda>bl. spec_typosquat d (snd bl)) TARGET_BRANDS = None"
      by (auto simp: find_None_iff)
    then show ?thesis using True by (simp add: check_domain_def d_def [symmetric])
  next
    case False
    then show ?thesis
      using check_brands_find [OF kw own] by (simp add: check_domain_def d_def [symmetric])
  qed
qed

theorem trusted_domains_never_flagged_witness:
  "list_ex (\<lambda>bl. candidate ''www.gmail.com'' \<in> set (snd bl)) TARGET_BRANDS \<and>
   candidate ''www.gmail.com'' \<notin> set WHITELIST \<and> check_domain ''www.gmail.com'' = None"
proof -
  have h: "list_ex (\<lambda>bl. candidate ''www.gmail.com'' \<in> set (snd bl)) TARGET_BRANDS"
    using gmail_legit candidate_plain by simp
  have "check_domain ''www.gmail.com'' = None"
    using trusted_domains_never_flagged [of "''www.gmail.com''"] h by blast
  then show ?thesis using h gmail_legit candidate_plain by simp
qed

lemma g0ogle_check: "check_domain ''g0ogle.com'' = Some ''google''"
proof -
  have "\<not> spec_keyword_flagged (candidate ''g0ogle.com'')"
    using examples_no_keyword candidate_plain by simp
  then have "check_domain ''g0ogle.com'' =
      map_option fst (find (\<lambda>bl. spec_typosquat ''g0ogle.com'' (snd bl)) TARGET_BRANDS)"
    using check_domain_first_typosquat [of "''g0ogle.com''"] candidate_plain by simp
  then show ?thesis unfolding spec_typosquat_exec g0ogle_find .
qed

lemma goooooogle_check: "check_domain ''goooooogle.com'' = None"
proof -
  have "\<not> spec_keyword_flagged (candidate ''goooooogle.com'')"
    using examples_no_keyword candidate_plain by simp
  then have "check_domain ''goooooogle.com'' =
      map_option fst (find (\<lambda>bl. spec_typosquat ''goooooogle.com'' (snd bl)) TARGET_BRANDS)"
    using check_domain_first_typosquat [of "''goooooogle.com''"] candidate_plain by simp
  then show ?thesis unfolding spec_typosquat_exec goooooogle_find by simp
qed

lemma adple_check: "check_domain ''adple.com'' = Some ''apple''"
proof -
  have "\<not> spec_keyword_flagged (candidate ''adple.com'')"
    using examples_no_keyword candidate_plain by simp
  then have "check_domain ''adple.com'' =
      map_option fst (find (\<lambda>bl. spec_typosquat ''adple.com'' (snd bl)) TARGET_BRANDS)"
    using check_domain_first_typosquat [of "''adple.com''"] candidate_plain by simp
  then show ?thesis unfolding spec_typosquat_exec adple_find by simp
qed

text \<open>
  Claim C7, as stated, fails where two brands qualify: \<open>adple.com\<close> is not flagged by the
  keyword rule, its label is at distance 2 from the label of \<open>adobe.com\<close> and longer
  than four characters, and yet the brand flagged is apple, the earlier brand of the
  table, whose label is at distance 1.
\<close>

theorem adple_flags_apple_not_adobe:
  "\<not> spec_keyword_flagged (candidate ''adple.com'') \<and>
   map_of TARGET_BRANDS ''adobe'' = Some [''adobe.com''] \<and>
   spec_typosquat (candidate ''adple.com'') [''adobe.com''] \<and>
   check_domain ''adple.com'' = Some ''apple'' \<and> ''apple'' \<noteq> ''adobe''"
proof -
  have a: "\<not> spec_keyword_flagged (candidate ''adple.com'')"
    using examples_no_keyword candidate_plain by simp
  have b: "map_of TARGET_BRANDS ''adobe'' = Some [''adobe.com'']"
    by (simp add: TARGET_BRANDS_def)
  have c: "spec_typosquat (candidate ''adple.com'') [''adobe.com'']"
    using adple_adobe candidate_plain by (simp add: spec_typosquat_exec)
  show ?thesis using a b c adple_check by simp
qed

text \<open>
  Claim C7, amended. For every candidate domain (the host in lower case without a leading
  \<open>www.\<close>) that the keyword rule does not flag, the detector returns the first brand, in
  the order of the brand table, one of whose legitimate domains has a first label at edit
  distance 1 or 2 from the candidate's first label, the candidate's first label being
  longer than four characters; it returns none when no brand qualifies. In particular
  \<open>g0ogle.com\<close> gives google and \<open>goooooogle.com\<close> gives none.
\<close>

theorem first_typosquat_brand:
  "(\<not> spec_keyword_flagged (candidate n) \<longrightarrow>
      check_domain n =
        map_option fst (find (\<lambda>bl. spec_typosquat (candidate n) (snd bl)) TARGET_BRANDS)) \<and>
   check_domain ''g0ogle.com'' = Some ''google'' \<and>
   check_domain ''goooooogle.com'' = None"
  using check_domain_first_typosquat g0ogle_check goooooogle_check by blast

theorem first_typosquat_brand_witness:
  "\<not> spec_keyword_flagged (candidate ''g0ogle.com'') \<and>
   map_option fst (find (\<lambda>bl. spec_typosquat (candidate ''g0ogle.com'') (snd bl)) TARGET_BRANDS)
     = Some ''google''"
proof -
  have h: "\<not> spec_keyword_flagged (candidate ''g0ogle.com'')"
    using examples_no_keyword candidate_plain by simp
  have e1: "check_domain ''g0ogle.com'' =
      map_option fst (find (\<lambda>bl. spec_typosquat (candidate ''g0ogle.com'') (snd bl))
        TARGET_BRANDS)"
    using first_typosquat_brand [of "''g0ogle.com''"] h by blast
  have e2: "check_domain ''g0ogle.com'' = Some ''google''"
    using first_typosquat_brand [of "''g0ogle.com''"] by blast
  have m: "map_option fst (find (\<lambda>bl. spec_typosquat (candidate ''g0ogle.com'') (snd bl))
        TARGET_BRANDS) = Some ''google''"
    using e1 e2 by (rule trans [OF sym])
  show ?thesis using h m by blast
qed

end
